theory Spec2Isabelle
  imports Complex_Main "HOL-Library.Sublist"
begin

section \<open>Byte strings and the library functions the package uses\<close>

text \<open>
  Go's \<open>[]byte\<close> and \<open>string\<close> are sequences of bytes; both are modelled as
  \<open>string\<close> (a list of 8-bit characters).

  \<open>bytes.Index(s, sep)\<close> is the index of the first instance of \<open>sep\<close> in \<open>s\<close>,
  or \<open>-1\<close> if \<open>sep\<close> is not present; \<open>bytes.Contains(b, sub)\<close> is
  \<open>Index(b, sub) != -1\<close>.
\<close>

fun Index :: "string \<Rightarrow> string \<Rightarrow> int" where
  "Index [] sep = (if sep = [] then 0 else - 1)"
| "Index (c # cs) sep =
     (if prefix sep (c # cs) then 0
      else (let i = Index cs sep in if i < 0 then - 1 else i + 1))"

definition Contains :: "string \<Rightarrow> string \<Rightarrow> bool" where
  "Contains b subslice = (Index b subslice \<noteq> - 1)"

section \<open>Errors\<close>

text \<open>
  A Go \<open>error\<close> value is \<open>error option\<close>, \<open>None\<close> being \<open>nil\<close>.
  \<open>Errorf\<close> keeps the format string and its arguments (the rendering of \<open>%q\<close> is
  left to the runtime); \<open>PkgSystemError\<close> is \<open>system.PkgSystemError{Type, Detail}\<close>;
  \<open>NotFoundError\<close> is \<open>system.NotFoundError(msg)\<close>; \<open>OSError\<close> stands for an
  error handed back by the operating system or by \<open>os/exec\<close>.
\<close>

datatype error =
    Errorf string "string list"
  | PkgSystemError string string
  | NotFoundError string
  | OSError string

text \<open>
  Modelled from the spec: the error-kind constants of package \<open>system\<close>, defined
  elsewhere in the repository. The spec lists the wire-stable strings \<open>dpkgInterrupted\<close>,
  \<open>dependenciesBroken\<close>, \<open>invalidSourceList\<close>, \<open>unknown\<close>,
  \<open>indexDownloadFailed\<close> and \<open>insufficientSpace\<close>.
\<close>

definition ErrTypeDpkgInterrupted :: string where
  "ErrTypeDpkgInterrupted = ''dpkgInterrupted''"

definition ErrTypeDependenciesBroken :: string where
  "ErrTypeDependenciesBroken = ''dependenciesBroken''"

definition ErrTypeInvalidSourcesList :: string where
  "ErrTypeInvalidSourcesList = ''invalidSourceList''"

definition ErrTypeUnknown :: string where
  "ErrTypeUnknown = ''unknown''"

section \<open>The error classifier\<close>

definition unmet_marker :: string where
  "unmet_marker = ''The following packages have unmet dependencies:''"

definition parsePkgSystemError :: "string \<Rightarrow> string \<Rightarrow> error option" where
  "parsePkgSystemError out err =
     (if length err = 0 then None
      else if Contains err ''dpkg was interrupted'' then
        Some (PkgSystemError ErrTypeDpkgInterrupted [])
      else if Contains err ''Unmet dependencies'' then
        (let idx = Index out unmet_marker;
             detail = (if idx = - 1 then out else drop (nat idx) out)
         in Some (PkgSystemError ErrTypeDependenciesBroken detail))
      else if Contains err ''The list of sources could not be read'' then
        Some (PkgSystemError ErrTypeInvalidSourcesList err)
      else Some (PkgSystemError ErrTypeUnknown err))"

section \<open>The progress parser\<close>

text \<open>
  \<open>strings.SplitN(s, sep, n)\<close> for \<open>n \<ge> 0\<close> and a separator of one byte, the only
  kind the package passes: at most \<open>n\<close> substrings, the last one being the unsplit
  remainder; \<open>n = 0\<close> gives no substrings.
\<close>

fun SplitN :: "string \<Rightarrow> char \<Rightarrow> nat \<Rightarrow> string list" where
  "SplitN s sep 0 = []"
| "SplitN s sep (Suc n) =
     (let m = Index s [sep] in
      if n = 0 \<or> m < 0 then [s]
      else take (nat m) s # SplitN (drop (nat m + 1) s) sep n)"

text \<open>
  The parts of the Go runtime that the parser calls and that are not code of this
  package are parameters of the model: \<open>strconv.ParseFloat(v, 64)\<close> (\<open>None\<close> when it
  returns an error), float64 constants and float64 division, and
  \<open>strings.TrimSpace\<close>. The type \<open>'f\<close> stands for float64.
\<close>

record 'f runtime =
  ParseFloat :: "string \<Rightarrow> 'f option"
  fconst :: "int \<Rightarrow> 'f"
  fquo :: "'f \<Rightarrow> 'f \<Rightarrow> 'f"
  TrimSpace :: "string \<Rightarrow> string"

text \<open>
  \<open>system.JobProgressInfo\<close>, with the fields this package sets. \<open>Status\<close> is a
  string type in Go (\<open>system.Status(fs[1])\<close> converts any string).
\<close>

record 'f JobProgressInfo =
  JobId :: string
  Progress :: 'f
  Description :: string
  Status :: string
  Cancelable :: bool

text \<open>
  Modelled from the spec: the status constants of package \<open>system\<close>, defined
  elsewhere in the repository. The spec names the status values \<open>Running\<close>,
  \<open>Failed\<close> and \<open>End\<close>.
\<close>

definition RunningStatus :: string where
  "RunningStatus = ''Running''"

definition FailedStatus :: string where
  "FailedStatus = ''Failed''"


text \<open>The composite literal \<open>system.JobProgressInfo{JobId: id}\<close>: every other field is zero.\<close>

definition JobProgressInfo_of_id :: "'f runtime \<Rightarrow> string \<Rightarrow> 'f JobProgressInfo" where
  "JobProgressInfo_of_id rt id' =
     \<lparr>JobId = id', Progress = fconst rt 0, Description = [], Status = [], Cancelable = False\<rparr>"

definition parseProgressField :: "'f runtime \<Rightarrow> string \<Rightarrow> 'f \<times> error option" where
  "parseProgressField rt v =
     (case ParseFloat rt v of
        None \<Rightarrow> (fconst rt (- 1), Some (Errorf ''unknown progress value: %q'' [v]))
      | Some progress \<Rightarrow> (progress, None))"

definition parseProgressInfo ::
  "'f runtime \<Rightarrow> string \<Rightarrow> string \<Rightarrow> 'f JobProgressInfo \<times> error option" where
  "parseProgressInfo rt id' line =
     (let fs = SplitN line CHR '':'' 4 in
      if length fs \<noteq> 4 then
        (JobProgressInfo_of_id rt id', Some (Errorf ''Invlaid Progress line:%q'' [line]))
      else
        (case parseProgressField rt (fs ! 2) of
           (progress, Some err) \<Rightarrow> (JobProgressInfo_of_id rt id', Some err)
         | (progress, None) \<Rightarrow>
             (let description = TrimSpace rt (fs ! 3);
                  infoType = fs ! 0
              in if infoType = ''dummy'' then
                   (\<lparr>JobId = id', Progress = progress, Description = description,
                     Status = fs ! 1, Cancelable = True\<rparr>, None)
                 else if infoType = ''dlstatus'' then
                   (\<lparr>JobId = id', Progress = fquo rt progress (fconst rt 100),
                     Description = description, Status = RunningStatus,
                     Cancelable = True\<rparr>, None)
                 else if infoType = ''pmstatus'' then
                   (\<lparr>JobId = id', Progress = fquo rt progress (fconst rt 100),
                     Description = description, Status = RunningStatus,
                     Cancelable = False\<rparr>, None)
                 else if infoType = ''pmerror'' then
                   (\<lparr>JobId = id', Progress = fconst rt (- 1), Description = description,
                     Status = FailedStatus, Cancelable = True\<rparr>, None)
                 else
                   (JobProgressInfo_of_id rt id',
                    Some (Errorf ''W: unknow status:%q'' [line])))))"

text \<open>A line of four fields \<open>kind:status:progress:description\<close>.\<close>

definition colon_line :: "string \<Rightarrow> string \<Rightarrow> string \<Rightarrow> string \<Rightarrow> string" where
  "colon_line kind st pf desc = kind @ CHR '':'' # st @ CHR '':'' # pf @ CHR '':'' # desc"

text \<open>
  A sample runtime for evaluating the parser on concrete lines: float64 is read as a
  real number, three decimal strings parse, and blanks are trimmed.
\<close>

definition sample_ParseFloat :: "string \<Rightarrow> real option" where
  "sample_ParseFloat v =
     (if v = ''0'' then Some 0 else if v = ''50'' then Some 50
      else if v = ''100'' then Some 100 else None)"

definition sample_TrimSpace :: "string \<Rightarrow> string" where
  "sample_TrimSpace s =
     rev (dropWhile (\<lambda>c. c = CHR '' '') (rev (dropWhile (\<lambda>c. c = CHR '' '') s)))"

definition sample_runtime :: "real runtime" where
  "sample_runtime =
     \<lparr>ParseFloat = sample_ParseFloat, fconst = of_int, fquo = (/),
      TrimSpace = sample_TrimSpace\<rparr>"

section \<open>The lock sentinel\<close>

text \<open>
  What one call of \<open>checkLock\<close> sees of a lock file: \<open>os.Open\<close> fails, or the
  \<open>F_GETLK\<close> query fails, or the query fills in the type of a conflicting lock
  (\<open>F_UNLCK\<close> when there is none).
\<close>

datatype lock_type = F_RDLCK | F_WRLCK | F_UNLCK

datatype probe = OpenFailed | FcntlFailed | Flock lock_type

text \<open>\<open>checkLock\<close> returns a message and whether the caller has to wait.\<close>

definition checkLock :: "probe \<Rightarrow> string \<Rightarrow> string \<times> bool" where
  "checkLock seen p =
     (case seen of
        OpenFailed \<Rightarrow> ([], False)
      | FcntlFailed \<Rightarrow> (p, True)
      | Flock t \<Rightarrow> (if t = F_WRLCK then (p, True) else ([], False)))"

text \<open>
  A Go function is modelled with the trace of what it does to the world. The commands
  built by \<open>newAPTCommand\<close> are values of \<open>Command\<close>, with the fields of
  \<open>system.Command\<close> that this package reads or writes; \<open>AtExitFn\<close> is a function of
  the exit code and of the captured stderr at the time it is called, and yields its
  result and the \<open>IndicateFailed\<close> calls it makes.
\<close>

datatype indicate = IndicateFailed string string bool

record Command =
  Args :: "string list"
  ExitCode :: int
  Stderr :: string
  AtExitFn :: "(int \<Rightarrow> string \<Rightarrow> bool \<times> indicate list) option"

text \<open>Modelled from the spec: the job kinds of package \<open>system\<close>, a closed set.\<close>

datatype JobType =
    DownloadJobType | PrepareDistUpgradeJobType | InstallJobType | RemoveJobType
  | DistUpgradeJobType | UpdateSourceJobType | CleanJobType | FixErrorJobType

datatype event =
    EvLockProbe string probe
  | EvSleep nat
  | EvExec string "string list"
  | EvNewAPTCommand string JobType "string list"
  | EvSetEnv "(string \<times> string) list"
  | EvStart Command
  | EvIndicate indicate
  | EvAbort Command
  | EvAbortWithFailed Command

definition dpkg_lock :: string where
  "dpkg_lock = ''/var/lib/dpkg/lock''"

definition dpkg_lock_frontend :: string where
  "dpkg_lock_frontend = ''/var/lib/dpkg/lock-frontend''"

text \<open>
  \<open>WaitDpkgLockRelease\<close> loops until one pass finds both files free. The argument
  lists what the lock files look like at each successive call of \<open>checkLock\<close>; the
  result is \<open>None\<close> when the loop is still waiting after the last of them, and
  otherwise the trace of the probes and of the five-second sleeps (the log lines are
  left out).
\<close>

fun WaitDpkgLockRelease :: "(string \<Rightarrow> probe) list \<Rightarrow> event list option" where
  "WaitDpkgLockRelease [] = None"
| "WaitDpkgLockRelease [w] = None"
| "WaitDpkgLockRelease (w # w' # ws) =
     (if snd (checkLock (w dpkg_lock) dpkg_lock) then
        map_option (\<lambda>tr. [EvLockProbe dpkg_lock (w dpkg_lock), EvSleep 5] @ tr)
          (WaitDpkgLockRelease (w' # ws))
      else if snd (checkLock (w' dpkg_lock_frontend) dpkg_lock_frontend) then
        map_option
          (\<lambda>tr. [EvLockProbe dpkg_lock (w dpkg_lock),
                  EvLockProbe dpkg_lock_frontend (w' dpkg_lock_frontend), EvSleep 5] @ tr)
          (WaitDpkgLockRelease ws)
      else
        Some [EvLockProbe dpkg_lock (w dpkg_lock),
              EvLockProbe dpkg_lock_frontend (w' dpkg_lock_frontend)])"

text \<open>
  The shape of a trace of \<open>WaitDpkgLockRelease\<close>: a pass that ends in a sleep found
  the first file locked, or the first file free and the second locked; \<open>probes\<close> lists
  the files probed and what was seen, in order.
\<close>

fun blocked_pass :: "event list \<Rightarrow> bool" where
  "blocked_pass [EvLockProbe p seen, EvSleep n] =
     (p = dpkg_lock \<and> snd (checkLock seen p) \<and> n = 5)"
| "blocked_pass [EvLockProbe p seen, EvLockProbe p' seen', EvSleep n] =
     (p = dpkg_lock \<and> \<not> snd (checkLock seen p) \<and>
      p' = dpkg_lock_frontend \<and> snd (checkLock seen' p') \<and> n = 5)"
| "blocked_pass tr = False"

fun probes :: "event list \<Rightarrow> (string \<times> probe) list" where
  "probes [] = []"
| "probes (EvLockProbe p seen # tr) = (p, seen) # probes tr"
| "probes (e # tr) = probes tr"

text \<open>
  The observations that one blocked pass uses up, one for each call of \<open>checkLock\<close>:
  the first file found locked, or the first file found free and then the second found
  locked; and what such a pass does: its probes and then the sleep of five seconds.
\<close>

fun blocked_obs :: "(string \<Rightarrow> probe) list \<Rightarrow> bool" where
  "blocked_obs [w] = snd (checkLock (w dpkg_lock) dpkg_lock)"
| "blocked_obs [w, w'] =
     (\<not> snd (checkLock (w dpkg_lock) dpkg_lock) \<and>
      snd (checkLock (w' dpkg_lock_frontend) dpkg_lock_frontend))"
| "blocked_obs ws = False"

fun pass_events :: "(string \<Rightarrow> probe) list \<Rightarrow> event list" where
  "pass_events [w] = [EvLockProbe dpkg_lock (w dpkg_lock), EvSleep 5]"
| "pass_events [w, w'] =
     [EvLockProbe dpkg_lock (w dpkg_lock),
      EvLockProbe dpkg_lock_frontend (w' dpkg_lock_frontend), EvSleep 5]"
| "pass_events ws = []"

text \<open>
  Sample observations: the first file write-locked, then the first free and the second
  write-locked, then the first file missing and the second free.
\<close>

definition sample_obs :: "(string \<Rightarrow> probe) list" where
  "sample_obs =
     [\<lambda>p. Flock F_WRLCK,
      \<lambda>p. Flock F_UNLCK,
      \<lambda>p. if p = dpkg_lock_frontend then Flock F_WRLCK else Flock F_UNLCK,
      \<lambda>p. if p = dpkg_lock then OpenFailed else Flock F_UNLCK,
      \<lambda>p. Flock F_RDLCK]"

definition sample_lock_trace :: "event list" where
  "sample_lock_trace =
     [EvLockProbe dpkg_lock (Flock F_WRLCK), EvSleep 5,
      EvLockProbe dpkg_lock (Flock F_UNLCK), EvLockProbe dpkg_lock_frontend (Flock F_WRLCK),
      EvSleep 5,
      EvLockProbe dpkg_lock OpenFailed, EvLockProbe dpkg_lock_frontend (Flock F_RDLCK)]"

section \<open>The facade\<close>

text \<open>
  A subprocess run through \<open>os/exec\<close>: the error of \<open>Start\<close>, the error of
  \<open>Wait\<close>, and what the process wrote to stdout and stderr by the time it was
  waited for.
\<close>

record proc =
  start_err :: "error option"
  wait_err :: "error option"
  stdout :: string
  stderr :: string

datatype JobError = JobError (Type: string) (Detail: string)

text \<open>
  \<open>APTSystem\<close> holds the live commands by job id (the \<open>Indicator\<close> callback is
  left out).
\<close>

record APTSystem =
  CmdSet :: "string \<rightharpoonup> Command"

text \<open>
  What the package gets from outside: the observations of the lock files, the
  subprocesses, and the functions defined elsewhere in the repository
  (\<open>newAPTCommand\<close>, \<open>parseJobError\<close>, \<open>FindCMD\<close>, the methods
  \<open>SetEnv\<close>, \<open>Start\<close>, \<open>Abort\<close> and \<open>AbortWithFailed\<close> of
  \<open>system.Command\<close>) together with the \<open>Error()\<close> text of an error. They are
  parameters of the model.
\<close>

record sys =
  lock_obs :: "(string \<Rightarrow> probe) list"
  exec :: "string \<Rightarrow> string list \<Rightarrow> proc"
  newAPTCommand :: "string \<Rightarrow> JobType \<Rightarrow> string list \<Rightarrow> Command"
  parseJobError :: "string \<Rightarrow> string \<Rightarrow> JobError"
  Command_SetEnv :: "Command \<Rightarrow> (string \<times> string) list \<Rightarrow> Command"
  Command_Start :: "Command \<Rightarrow> error option"
  FindCMD :: "APTSystem \<Rightarrow> string \<Rightarrow> Command option"
  Command_Abort :: "Command \<Rightarrow> APTSystem \<Rightarrow> error option \<times> APTSystem"
  Command_AbortWithFailed :: "Command \<Rightarrow> APTSystem \<Rightarrow> error option \<times> APTSystem"
  Error :: "error \<Rightarrow> string"

text \<open>
  How a call ends: it returns its \<open>error\<close>, or it panics, or it never returns (the
  lock wait goes on).
\<close>

datatype outcome = Return "error option" | Panic | NoReturn

text \<open>
  Modelled from the spec: the job-level error kinds of package \<open>system\<close> (defined
  elsewhere in the repository), with the wire-stable strings the spec lists, and the
  exit code of a child that succeeded.
\<close>

definition ErrorUnknown :: string where
  "ErrorUnknown = ''unknown''"

definition ErrorInsufficientSpace :: string where
  "ErrorInsufficientSpace = ''insufficientSpace''"

definition ErrorIndexDownloadFailed :: string where
  "ErrorIndexDownloadFailed = ''indexDownloadFailed''"

definition ExitSuccess :: int where
  "ExitSuccess = 0"

text \<open>\<open>cmd.Run()\<close> is \<open>Start\<close> followed by \<open>Wait\<close>; nothing is captured from a
  process that did not start.\<close>

definition Run :: "proc \<Rightarrow> error option" where
  "Run cmd = (case start_err cmd of Some e \<Rightarrow> Some e | None \<Rightarrow> wait_err cmd)"

definition captured :: "proc \<Rightarrow> (proc \<Rightarrow> string) \<Rightarrow> string" where
  "captured cmd buf = (if start_err cmd = None then buf cmd else [])"

definition CheckPkgSystemError :: "sys \<Rightarrow> bool \<Rightarrow> error option \<times> event list" where
  "CheckPkgSystemError s lock =
     (let args = [''check''] @ (if \<not> lock then [''-o'', ''Debug::NoLocking=1''] else []);
          cmd = exec s ''apt-get'' args;
          err = Run cmd
      in (if err = None then None
          else parsePkgSystemError (captured cmd stdout) (captured cmd stderr),
          [EvExec ''apt-get'' args]))"

text \<open>
  \<open>safeStart\<close> starts the simulation and returns; the goroutine it leaves behind waits
  for the simulation and decides. The trace lists what the goroutine does after the
  events of the caller.
\<close>

definition safeStart_wait :: "sys \<Rightarrow> Command \<Rightarrow> proc \<Rightarrow> event list" where
  "safeStart_wait s c cmd =
     (if wait_err cmd \<noteq> None then
        (let jobErr = parseJobError s (stderr cmd) (stdout cmd)
         in [EvIndicate (IndicateFailed (Type jobErr) (Detail jobErr) False)])
      else if Contains (stdout cmd) ''Remv dde '' then
        [EvIndicate (IndicateFailed ''removeDDE'' [] True)]
      else
        (case Command_Start s c of
           Some err \<Rightarrow>
             [EvStart c,
              EvIndicate (IndicateFailed ErrorUnknown
                (''apt-get start failed: '' @ Error s err) False)]
         | None \<Rightarrow> [EvStart c]))"

definition safeStart :: "sys \<Rightarrow> Command \<Rightarrow> outcome \<times> event list" where
  "safeStart s c =
     (case Args c of
        [] \<Rightarrow> (Panic, [])
      | arg0 # rest \<Rightarrow>
          (let args = [''-s''] @ rest;
               cmd = exec s ''apt-get'' args
           in case start_err cmd of
                Some err \<Rightarrow> (Return (Some err), [EvExec ''apt-get'' args])
              | None \<Rightarrow> (Return None, [EvExec ''apt-get'' args] @ safeStart_wait s c cmd)))"

text \<open>
  \<open>range\<close> over a Go map visits the entries in an order of its own; the options are
  given as the list of entries in the order visited.
\<close>

definition OptionToArgs :: "(string \<times> string) list \<Rightarrow> string list" where
  "OptionToArgs options = concat (map (\<lambda>(key, value). [''-o'', key @ ''='' @ value]) options)"

definition Command_Start_traced :: "sys \<Rightarrow> Command \<Rightarrow> outcome \<times> event list" where
  "Command_Start_traced s c = (Return (Command_Start s c), [EvStart c])"

definition DownloadPackages ::
  "sys \<Rightarrow> string \<Rightarrow> string list \<Rightarrow> (string \<times> string) list \<Rightarrow> (string \<times> string) list \<Rightarrow>
   outcome \<times> event list" where
  "DownloadPackages s jobId packages environ args =
     (case CheckPkgSystemError s False of
        (Some err, tr) \<Rightarrow> (Return (Some err), tr)
      | (None, tr) \<Rightarrow>
          (let cargs = packages @ OptionToArgs args;
               c = newAPTCommand s jobId DownloadJobType cargs;
               c = Command_SetEnv s c environ;
               (r, tr') = Command_Start_traced s c
           in (r, tr @ [EvNewAPTCommand jobId DownloadJobType cargs, EvSetEnv environ] @ tr')))"

definition DownloadSource ::
  "sys \<Rightarrow> string \<Rightarrow> (string \<times> string) list \<Rightarrow> (string \<times> string) list \<Rightarrow>
   outcome \<times> event list" where
  "DownloadSource s jobId environ args =
     (let cargs = OptionToArgs args;
          c = newAPTCommand s jobId PrepareDistUpgradeJobType cargs;
          c = Command_SetEnv s c environ;
          (r, tr') = Command_Start_traced s c
      in (r, [EvNewAPTCommand jobId PrepareDistUpgradeJobType cargs, EvSetEnv environ] @ tr'))"

definition Remove ::
  "sys \<Rightarrow> string \<Rightarrow> string list \<Rightarrow> (string \<times> string) list \<Rightarrow> outcome \<times> event list" where
  "Remove s jobId packages environ =
     (case WaitDpkgLockRelease (lock_obs s) of
        None \<Rightarrow> (NoReturn, [])
      | Some lt \<Rightarrow>
          (case CheckPkgSystemError s True of
             (Some err, tr) \<Rightarrow> (Return (Some err), lt @ tr)
           | (None, tr) \<Rightarrow>
               (let c = newAPTCommand s jobId RemoveJobType packages;
                    c = Command_SetEnv s c environ;
                    (r, tr') = safeStart s c
                in (r, lt @ tr @
                      [EvNewAPTCommand jobId RemoveJobType packages, EvSetEnv environ] @ tr'))))"

definition Install ::
  "sys \<Rightarrow> string \<Rightarrow> string list \<Rightarrow> (string \<times> string) list \<Rightarrow> (string \<times> string) list \<Rightarrow>
   outcome \<times> event list" where
  "Install s jobId packages environ args =
     (case WaitDpkgLockRelease (lock_obs s) of
        None \<Rightarrow> (NoReturn, [])
      | Some lt \<Rightarrow>
          (case CheckPkgSystemError s True of
             (Some err, tr) \<Rightarrow> (Return (Some err), lt @ tr)
           | (None, tr) \<Rightarrow>
               (let cargs = packages @ OptionToArgs args;
                    c = newAPTCommand s jobId InstallJobType cargs;
                    c = Command_SetEnv s c environ;
                    (r, tr') = safeStart s c
                in (r, lt @ tr @
                      [EvNewAPTCommand jobId InstallJobType cargs, EvSetEnv environ] @ tr'))))"

text \<open>
  In \<open>DistUpgrade\<close> the test \<open>errors.As(err, &e)\<close> asks whether the error is a
  \<open>*system.PkgSystemError\<close>; the function returns \<open>err\<close> when it is not nil and
  either is not one or has a type other than \<open>ErrTypeDependenciesBroken\<close>.
\<close>

definition DistUpgrade_gives_up :: "error option \<Rightarrow> bool" where
  "DistUpgrade_gives_up err =
     (case err of
        None \<Rightarrow> False
      | Some (PkgSystemError t d) \<Rightarrow> t \<noteq> ErrTypeDependenciesBroken
      | Some e \<Rightarrow> True)"

definition DistUpgrade ::
  "sys \<Rightarrow> string \<Rightarrow> (string \<times> string) list \<Rightarrow> (string \<times> string) list \<Rightarrow>
   outcome \<times> event list" where
  "DistUpgrade s jobId environ args =
     (case WaitDpkgLockRelease (lock_obs s) of
        None \<Rightarrow> (NoReturn, [])
      | Some lt \<Rightarrow>
          (let (err, tr) = CheckPkgSystemError s True
           in if DistUpgrade_gives_up err then (Return err, lt @ tr)
              else
                (let cargs = OptionToArgs args;
                     c = newAPTCommand s jobId DistUpgradeJobType cargs;
                     c = Command_SetEnv s c environ;
                     (r, tr') = safeStart s c
                 in (r, lt @ tr @
                       [EvNewAPTCommand jobId DistUpgradeJobType cargs, EvSetEnv environ] @ tr'))))"

definition UpdateSource_AtExitFn :: "int \<Rightarrow> string \<Rightarrow> bool \<times> indicate list" where
  "UpdateSource_AtExitFn exitCode errBytes =
     (if exitCode = ExitSuccess \<and> Contains errBytes ''Some index files failed to download''
      then
        (if Contains errBytes ''No space left on device'' then
           (True, [IndicateFailed ErrorInsufficientSpace errBytes False])
         else
           (True, [IndicateFailed ErrorIndexDownloadFailed errBytes False]))
      else (False, []))"

definition UpdateSource ::
  "sys \<Rightarrow> string \<Rightarrow> (string \<times> string) list \<Rightarrow> (string \<times> string) list \<Rightarrow>
   outcome \<times> event list" where
  "UpdateSource s jobId environ args =
     (let cargs = OptionToArgs args;
          c = newAPTCommand s jobId UpdateSourceJobType cargs;
          c = c\<lparr>AtExitFn := Some UpdateSource_AtExitFn\<rparr>;
          c = Command_SetEnv s c environ;
          (r, tr') = Command_Start_traced s c
      in (r, [EvNewAPTCommand jobId UpdateSourceJobType cargs, EvSetEnv environ] @ tr'))"

definition Clean :: "sys \<Rightarrow> string \<Rightarrow> outcome \<times> event list" where
  "Clean s jobId =
     (let c = newAPTCommand s jobId CleanJobType [];
          (r, tr') = Command_Start_traced s c
      in (r, [EvNewAPTCommand jobId CleanJobType []] @ tr'))"

definition FixError ::
  "sys \<Rightarrow> string \<Rightarrow> string \<Rightarrow> (string \<times> string) list \<Rightarrow> (string \<times> string) list \<Rightarrow>
   outcome \<times> event list" where
  "FixError s jobId errType environ args =
     (case WaitDpkgLockRelease (lock_obs s) of
        None \<Rightarrow> (NoReturn, [])
      | Some lt \<Rightarrow>
          (let cargs = [errType] @ OptionToArgs args;
               c = newAPTCommand s jobId FixErrorJobType cargs;
               c = Command_SetEnv s c environ;
               (r, tr') = (if errType = ErrTypeDependenciesBroken then safeStart s c
                           else Command_Start_traced s c)
           in (r, lt @ [EvNewAPTCommand jobId FixErrorJobType cargs, EvSetEnv environ] @ tr')))"

text \<open>
  \<open>Abort\<close> and \<open>AbortWithFailed\<close> return their error, the system afterwards and
  the trace. \<open>FindCMD\<close> yields a pointer to the live command of the job, or nil
  (\<open>None\<close>); the command found belongs to the system, so its method is given the
  system and hands back what it made of it.
\<close>

definition Abort :: "sys \<Rightarrow> APTSystem \<Rightarrow> string \<Rightarrow> error option \<times> APTSystem \<times> event list" where
  "Abort s p jobId =
     (case FindCMD s p jobId of
        Some c \<Rightarrow>
          (let (err, p') = Command_Abort s c p
           in (err, p', [EvAbort c]))
      | None \<Rightarrow> (Some (NotFoundError (''abort '' @ jobId)), p, []))"

definition AbortWithFailed ::
  "sys \<Rightarrow> APTSystem \<Rightarrow> string \<Rightarrow> error option \<times> APTSystem \<times> event list" where
  "AbortWithFailed s p jobId =
     (case FindCMD s p jobId of
        Some c \<Rightarrow>
          (let (err, p') = Command_AbortWithFailed s c p
           in (err, p', [EvAbortWithFailed c]))
      | None \<Rightarrow> (Some (NotFoundError (''abort '' @ jobId)), p, []))"

section \<open>The retry hook of UpdateSource\<close>

text \<open>
  The fields of \<open>Job\<close> that \<open>handleUpdateSourceFailed\<close> touches. \<open>unref\<close> is a
  release callback, known by a number, or nil; the hook that \<open>wrapPreHooks\<close> is
  given for the status \<open>End\<close> calls it when it is not nil.
\<close>

datatype hook = CallUnref "nat option"

record Job =
  retry :: int
  option :: "string \<rightharpoonup> string"
  wrapped_preHooks :: "(string \<times> hook) list"








section \<open>Sample surroundings\<close>

text \<open>
  Concrete values for running the model: subprocess results, a system whose
  \<open>apt-get check\<close> is the first process and whose simulation is the second, and the
  surroundings of the retry hook.
\<close>

definition proc_ok :: proc where
  "proc_ok = \<lparr>start_err = None, wait_err = None, stdout = ''Inst foo (1.0 stable)'', stderr = []\<rparr>"

definition proc_remv_dde :: proc where
  "proc_remv_dde =
     \<lparr>start_err = None, wait_err = None, stdout = ''Remv dde core [1.0]'', stderr = []\<rparr>"

definition proc_failed :: proc where
  "proc_failed =
     \<lparr>start_err = None, wait_err = Some (OSError ''exit status 100''), stdout = [],
      stderr = ''E: boom''\<rparr>"

definition proc_dpkg_interrupted :: proc where
  "proc_dpkg_interrupted =
     \<lparr>start_err = None, wait_err = Some (OSError ''exit status 100''), stdout = [],
      stderr = ''E: dpkg was interrupted''\<rparr>"

definition proc_unmet :: proc where
  "proc_unmet =
     \<lparr>start_err = None, wait_err = Some (OSError ''exit status 100''), stdout = ''deps'',
      stderr = ''E: Unmet dependencies''\<rparr>"

definition sample_Command :: "JobType \<Rightarrow> string list \<Rightarrow> Command" where
  "sample_Command t args =
     \<lparr>Args = [''apt-get''] @ args, ExitCode = 0, Stderr = [], AtExitFn = None\<rparr>"

definition sample_sys :: "proc \<Rightarrow> proc \<Rightarrow> sys" where
  "sample_sys chk sim =
     \<lparr>lock_obs = sample_obs,
      exec = (\<lambda>name args. case args of [] \<Rightarrow> sim | a # as \<Rightarrow> if a = ''check'' then chk else sim),
      newAPTCommand = (\<lambda>jobId t args. sample_Command t args),
      parseJobError = (\<lambda>err out. JobError ''unknown'' err),
      Command_SetEnv = (\<lambda>c environ. c),
      Command_Start = (\<lambda>c. None),
      FindCMD = (\<lambda>p jobId. CmdSet p jobId),
      Command_Abort = (\<lambda>c p. (None, p)),
      Command_AbortWithFailed = (\<lambda>c p. (None, p)),
      Error = (\<lambda>e. ''error'')\<rparr>"


text \<open>
  For stating what the facade does: the command an operation builds and configures, and
  the events that are a run of \<open>apt-get check\<close>.
\<close>

definition built_Command ::
  "sys \<Rightarrow> string \<Rightarrow> JobType \<Rightarrow> string list \<Rightarrow> (string \<times> string) list \<Rightarrow> Command" where
  "built_Command s jobId t cargs environ =
     Command_SetEnv s (newAPTCommand s jobId t cargs) environ"

fun is_check :: "event \<Rightarrow> bool" where
  "is_check (EvExec name (a # as)) = (name = ''apt-get'' \<and> a = ''check'')"
| "is_check e = False"

section \<open>Facts about the library functions\<close>

lemma Index_ge: "- 1 \<le> Index s sep"
  by (induction s) (auto simp: Let_def)

lemma Index_le: "Index s sep \<le> int (length s)"
  by (induction s) (auto simp: Let_def)

lemma Index_found:
  "Index s sep = int i \<Longrightarrow> prefix sep (drop i s) \<and> (\<forall>j<i. \<not> prefix sep (drop j s))"
proof (induction s arbitrary: i)
  case Nil
  then show ?case by (auto split: if_splits)
next
  case (Cons c cs)
  show ?case
  proof (cases "prefix sep (c # cs)")
    case True
    with Cons.prems show ?thesis by simp
  next
    case False
    with Cons.prems have neg: "\<not> Index cs sep < 0" and i: "int i = Index cs sep + 1"
      by (auto simp: Let_def split: if_splits)
    from neg i have "Index cs sep = int (i - 1)" and "0 < i"
      by arith+
    then obtain k where k: "i = Suc k" "Index cs sep = int k"
      by (cases i) auto
    from Cons.IH [OF k(2)] have IH: "prefix sep (drop k cs)" "\<forall>j<k. \<not> prefix sep (drop j cs)"
      by auto
    have "\<not> prefix sep (drop j (c # cs))" if "j < i" for j
    proof (cases j)
      case 0
      with False show ?thesis by simp
    next
      case (Suc j')
      with that k IH(2) show ?thesis by simp
    qed
    with IH(1) k show ?thesis by simp
  qed
qed

lemma Index_missing: "Index s sep = - 1 \<Longrightarrow> \<not> sublist sep s"
proof (induction s)
  case Nil
  then show ?case by (auto split: if_splits)
next
  case (Cons c cs)
  then have np: "\<not> prefix sep (c # cs)" and "Index cs sep = - 1"
    using Index_ge [of cs sep] by (auto simp: Let_def split: if_splits)
  with Cons.IH have "\<not> sublist sep cs" by simp
  with np show ?case by (simp add: sublist_Cons_right)
qed

lemma Contains_iff: "Contains s sep \<longleftrightarrow> sublist sep s"
proof
  assume "Contains s sep"
  then have "0 \<le> Index s sep"
    using Index_ge [of s sep] by (simp add: Contains_def)
  then obtain i where i: "Index s sep = int i"
    using nonneg_int_cases by blast
  from Index_found [OF i] have "prefix sep (drop i s)" by simp
  then obtain post where "drop i s = sep @ post" by (auto simp: prefix_def)
  then have "s = take i s @ sep @ post"
    by (metis append_take_drop_id)
  then show "sublist sep s" unfolding sublist_def by blast
next
  assume "sublist sep s"
  then show "Contains s sep"
    using Index_missing [of s sep] by (auto simp: Contains_def)
qed

lemma Index_char:
  "Index s [c] = (if c \<in> set s then int (length (takeWhile (\<lambda>x. x \<noteq> c) s)) else - 1)"
  by (induction s) (auto simp: Let_def)

lemma Index_first_char: "c \<notin> set a \<Longrightarrow> Index (a @ c # r) [c] = int (length a)"
  by (induction a) (auto simp: Let_def)

lemma SplitN_Suc_hit:
  "c \<notin> set a \<Longrightarrow> 0 < n \<Longrightarrow> SplitN (a @ c # r) c (Suc n) = a # SplitN r c n"
  by (simp add: Index_first_char)

lemma SplitN_one: "SplitN s c (Suc 0) = [s]"
  by simp

lemma SplitN_four:
  "c \<notin> set a \<Longrightarrow> c \<notin> set b \<Longrightarrow> c \<notin> set d \<Longrightarrow>
   SplitN (a @ c # b @ c # d @ c # r) c 4 = [a, b, d, r]"
proof -
  assume a: "c \<notin> set a" and b: "c \<notin> set b" and d: "c \<notin> set d"
  have "SplitN (a @ c # b @ c # d @ c # r) c (Suc (Suc (Suc (Suc 0)))) = [a, b, d, r]"
    using a b d by (simp add: SplitN_Suc_hit SplitN_one del: SplitN.simps)
  then show ?thesis by (simp add: eval_nat_numeral)
qed

lemma length_SplitN: "length (SplitN s c n) \<le> length (filter (\<lambda>x. x = c) s) + 1"
proof (induction n arbitrary: s)
  case 0
  then show ?case by simp
next
  case (Suc n)
  show ?case
  proof (cases "c \<in> set s \<and> n \<noteq> 0")
    case False
    then show ?thesis by (auto simp: Index_char)
  next
    case True
    then obtain a r where s: "s = a @ c # r" "c \<notin> set a"
      by (meson split_list_first)
    with True have "SplitN s c (Suc n) = a # SplitN r c n"
      using SplitN_Suc_hit [of c a n r] by simp
    moreover have "length (filter (\<lambda>x. x = c) s) = length (filter (\<lambda>x. x = c) r) + 1"
      using s by (auto simp: filter_empty_conv)
    ultimately show ?thesis using Suc.IH [of r] by simp
  qed
qed

section \<open>Claims about the error classifier\<close>

text \<open>
  C4. \<open>parsePkgSystemError\<close> returns nil exactly when stderr is empty. On a non-empty
  stderr the first matching rule decides: stderr containing "dpkg was interrupted" gives
  DpkgInterrupted; else stderr containing "Unmet dependencies" gives DependenciesBroken,
  whose detail is the suffix of stdout that starts at the first occurrence of
  "The following packages have unmet dependencies:", or all of stdout when that marker
  is absent; else stderr containing "The list of sources could not be read" gives
  InvalidSourcesList with detail stderr; otherwise Unknown with detail stderr.
\<close>

theorem parsePkgSystemError_classification:
  "(parsePkgSystemError out err = None \<longleftrightarrow> err = []) \<and>
   (err \<noteq> [] \<and> sublist ''dpkg was interrupted'' err \<longrightarrow>
      parsePkgSystemError out err = Some (PkgSystemError ErrTypeDpkgInterrupted [])) \<and>
   (err \<noteq> [] \<and> \<not> sublist ''dpkg was interrupted'' err \<and> sublist ''Unmet dependencies'' err \<longrightarrow>
      (\<exists>detail. parsePkgSystemError out err = Some (PkgSystemError ErrTypeDependenciesBroken detail) \<and>
         (if sublist unmet_marker out
          then \<exists>pre. out = pre @ detail \<and> prefix unmet_marker detail \<and>
                 (\<forall>j<length pre. \<not> prefix unmet_marker (drop j out))
          else detail = out))) \<and>
   (err \<noteq> [] \<and> \<not> sublist ''dpkg was interrupted'' err \<and> \<not> sublist ''Unmet dependencies'' err \<and>
    sublist ''The list of sources could not be read'' err \<longrightarrow>
      parsePkgSystemError out err = Some (PkgSystemError ErrTypeInvalidSourcesList err)) \<and>
   (err \<noteq> [] \<and> \<not> sublist ''dpkg was interrupted'' err \<and> \<not> sublist ''Unmet dependencies'' err \<and>
    \<not> sublist ''The list of sources could not be read'' err \<longrightarrow>
      parsePkgSystemError out err = Some (PkgSystemError ErrTypeUnknown err))"
proof -
  have nil: "parsePkgSystemError out err = None \<longleftrightarrow> err = []"
    by (simp add: parsePkgSystemError_def Let_def)
  have dep: "\<exists>pre. out = pre @ drop (nat (Index out unmet_marker)) out \<and>
                 prefix unmet_marker (drop (nat (Index out unmet_marker)) out) \<and>
                 (\<forall>j<length pre. \<not> prefix unmet_marker (drop j out))"
    if "sublist unmet_marker out"
  proof -
    from that have "Index out unmet_marker \<noteq> - 1"
      by (simp add: Contains_iff [symmetric] Contains_def)
    then obtain i where i: "Index out unmet_marker = int i"
      using Index_ge [of out unmet_marker] nonneg_int_cases [of "Index out unmet_marker"] by force
    have "i \<le> length out"
      using Index_le [of out unmet_marker] i by simp
    then have "length (take i out) = i" by simp
    with Index_found [OF i] i show ?thesis
      by (intro exI [of _ "take i out"]) simp
  qed
  have miss: "Index out unmet_marker = - 1" if "\<not> sublist unmet_marker out"
    using that by (simp add: Contains_iff [symmetric] Contains_def)
  have hit: "Index out unmet_marker \<noteq> - 1" if "sublist unmet_marker out"
    using that by (simp add: Contains_iff [symmetric] Contains_def)
  show ?thesis
    using nil dep miss hit
    by (auto simp: parsePkgSystemError_def Let_def Contains_iff)
qed

theorem parsePkgSystemError_classification_witness:
  "parsePkgSystemError ''x'' [] = None \<and>
   (sublist ''dpkg was interrupted'' ''E: dpkg was interrupted, Unmet dependencies'' \<and>
    parsePkgSystemError ''x'' ''E: dpkg was interrupted, Unmet dependencies'' =
      Some (PkgSystemError ''dpkgInterrupted'' [])) \<and>
   (\<not> sublist ''dpkg was interrupted'' ''E: Unmet dependencies.'' \<and>
    sublist ''Unmet dependencies'' ''E: Unmet dependencies.'' \<and>
    sublist unmet_marker ''ab The following packages have unmet dependencies: foo'' \<and>
    parsePkgSystemError ''ab The following packages have unmet dependencies: foo''
        ''E: Unmet dependencies.'' =
      Some (PkgSystemError ''dependenciesBroken''
        ''The following packages have unmet dependencies: foo'')) \<and>
   (\<not> sublist unmet_marker ''no marker'' \<and>
    parsePkgSystemError ''no marker'' ''E: Unmet dependencies.'' =
      Some (PkgSystemError ''dependenciesBroken'' ''no marker'')) \<and>
   (\<not> sublist ''dpkg was interrupted'' ''E: The list of sources could not be read.'' \<and>
    \<not> sublist ''Unmet dependencies'' ''E: The list of sources could not be read.'' \<and>
    sublist ''The list of sources could not be read''
      ''E: The list of sources could not be read.'' \<and>
    parsePkgSystemError ''x'' ''E: The list of sources could not be read.'' =
      Some (PkgSystemError ''invalidSourceList'' ''E: The list of sources could not be read.'')) \<and>
   (\<not> sublist ''dpkg was interrupted'' ''E: boom'' \<and>
    \<not> sublist ''Unmet dependencies'' ''E: boom'' \<and>
    \<not> sublist ''The list of sources could not be read'' ''E: boom'' \<and>
    parsePkgSystemError ''x'' ''E: boom'' = Some (PkgSystemError ''unknown'' ''E: boom''))"
  using parsePkgSystemError_classification [of "''x''" "[]"]
    parsePkgSystemError_classification [of "''x''" "''E: dpkg was interrupted, Unmet dependencies''"]
    parsePkgSystemError_classification
      [of "''ab The following packages have unmet dependencies: foo''" "''E: Unmet dependencies.''"]
    parsePkgSystemError_classification [of "''no marker''" "''E: Unmet dependencies.''"]
    parsePkgSystemError_classification
      [of "''x''" "''E: The list of sources could not be read.''"]
    parsePkgSystemError_classification [of "''x''" "''E: boom''"]
  by (simp add: parsePkgSystemError_def Contains_iff [symmetric] Contains_def Let_def
      unmet_marker_def ErrTypeDpkgInterrupted_def ErrTypeDependenciesBroken_def
      ErrTypeInvalidSourcesList_def ErrTypeUnknown_def)

section \<open>Claims about the progress parser\<close>

lemma SplitN_colon_line:
  "CHR '':'' \<notin> set kind \<Longrightarrow> CHR '':'' \<notin> set st \<Longrightarrow> CHR '':'' \<notin> set pf \<Longrightarrow>
   SplitN (colon_line kind st pf desc) CHR '':'' 4 = [kind, st, pf, desc]"
  unfolding colon_line_def by (rule SplitN_four)

lemma parseProgressInfo_fields:
  assumes "SplitN line CHR '':'' 4 = [kind, st, pf, desc]"
  shows "parseProgressInfo rt id' line =
     (case ParseFloat rt pf of
        None \<Rightarrow> (JobProgressInfo_of_id rt id', Some (Errorf ''unknown progress value: %q'' [pf]))
      | Some progress \<Rightarrow>
          (if kind = ''dummy'' then
             (\<lparr>JobId = id', Progress = progress, Description = TrimSpace rt desc,
               Status = st, Cancelable = True\<rparr>, None)
           else if kind = ''dlstatus'' then
             (\<lparr>JobId = id', Progress = fquo rt progress (fconst rt 100),
               Description = TrimSpace rt desc, Status = RunningStatus,
               Cancelable = True\<rparr>, None)
           else if kind = ''pmstatus'' then
             (\<lparr>JobId = id', Progress = fquo rt progress (fconst rt 100),
               Description = TrimSpace rt desc, Status = RunningStatus,
               Cancelable = False\<rparr>, None)
           else if kind = ''pmerror'' then
             (\<lparr>JobId = id', Progress = fconst rt (- 1), Description = TrimSpace rt desc,
               Status = FailedStatus, Cancelable = True\<rparr>, None)
           else (JobProgressInfo_of_id rt id', Some (Errorf ''W: unknow status:%q'' [line]))))"
  using assms
  by (simp add: parseProgressInfo_def parseProgressField_def Let_def eval_nat_numeral
      split: option.split)

text \<open>
  C5. For every well-formed progress line (four colon-separated fields whose third field
  parses as a number) \<open>parseProgressInfo\<close> maps the kind field as follows: "dlstatus"
  gives status Running, the progress divided by 100, cancelable true; "pmstatus" gives
  status Running, the progress divided by 100, cancelable false; "pmerror" gives status
  Failed, progress forced to -1, cancelable true; "dummy" gives the status field verbatim,
  the progress as it is, cancelable true; any other kind yields a parse error.
\<close>

theorem parseProgressInfo_kinds:
  assumes "CHR '':'' \<notin> set kind" and "CHR '':'' \<notin> set st" and "CHR '':'' \<notin> set pf"
    and "ParseFloat rt pf = Some p"
    and "line = colon_line kind st pf desc"
  shows "(kind = ''dlstatus'' \<longrightarrow> parseProgressInfo rt id' line =
           (\<lparr>JobId = id', Progress = fquo rt p (fconst rt 100), Description = TrimSpace rt desc,
             Status = RunningStatus, Cancelable = True\<rparr>, None)) \<and>
         (kind = ''pmstatus'' \<longrightarrow> parseProgressInfo rt id' line =
           (\<lparr>JobId = id', Progress = fquo rt p (fconst rt 100), Description = TrimSpace rt desc,
             Status = RunningStatus, Cancelable = False\<rparr>, None)) \<and>
         (kind = ''pmerror'' \<longrightarrow> parseProgressInfo rt id' line =
           (\<lparr>JobId = id', Progress = fconst rt (- 1), Description = TrimSpace rt desc,
             Status = FailedStatus, Cancelable = True\<rparr>, None)) \<and>
         (kind = ''dummy'' \<longrightarrow> parseProgressInfo rt id' line =
           (\<lparr>JobId = id', Progress = p, Description = TrimSpace rt desc,
             Status = st, Cancelable = True\<rparr>, None)) \<and>
         (kind \<notin> {''dlstatus'', ''pmstatus'', ''pmerror'', ''dummy''} \<longrightarrow>
           parseProgressInfo rt id' line =
           (JobProgressInfo_of_id rt id', Some (Errorf ''W: unknow status:%q'' [line])))"
proof -
  have "SplitN line CHR '':'' 4 = [kind, st, pf, desc]"
    using assms(1-3,5) by (simp add: SplitN_colon_line)
  from parseProgressInfo_fields [OF this, of rt id'] assms(4) show ?thesis
    by simp
qed

theorem parseProgressInfo_kinds_witness:
  "ParseFloat sample_runtime ''50'' = Some 50 \<and>
   parseProgressInfo sample_runtime ''job'' ''dlstatus:x:50: fetching '' =
     (\<lparr>JobId = ''job'', Progress = 1 / 2, Description = ''fetching'',
       Status = ''Running'', Cancelable = True\<rparr>, None) \<and>
   parseProgressInfo sample_runtime ''job'' ''pmstatus:x:50: unpacking '' =
     (\<lparr>JobId = ''job'', Progress = 1 / 2, Description = ''unpacking'',
       Status = ''Running'', Cancelable = False\<rparr>, None) \<and>
   parseProgressInfo sample_runtime ''job'' ''pmerror:x:50:broken'' =
     (\<lparr>JobId = ''job'', Progress = - 1, Description = ''broken'',
       Status = ''Failed'', Cancelable = True\<rparr>, None) \<and>
   parseProgressInfo sample_runtime ''job'' ''dummy:paused:50:idle'' =
     (\<lparr>JobId = ''job'', Progress = 50, Description = ''idle'',
       Status = ''paused'', Cancelable = True\<rparr>, None) \<and>
   snd (parseProgressInfo sample_runtime ''job'' ''pmconffile:x:50:conf'') =
     Some (Errorf ''W: unknow status:%q'' [''pmconffile:x:50:conf'']) \<and>
   snd (parseProgressInfo sample_runtime ''job'' ''media-change:x:50:cd'') =
     Some (Errorf ''W: unknow status:%q'' [''media-change:x:50:cd''])"
  using
    parseProgressInfo_kinds [where kind = "''dlstatus''" and st = "''x''" and pf = "''50''"
      and rt = sample_runtime and p = 50 and desc = "'' fetching ''" and id' = "''job''", OF _ _ _ _ refl]
    parseProgressInfo_kinds [where kind = "''pmstatus''" and st = "''x''" and pf = "''50''"
      and rt = sample_runtime and p = 50 and desc = "'' unpacking ''" and id' = "''job''", OF _ _ _ _ refl]
    parseProgressInfo_kinds [where kind = "''pmerror''" and st = "''x''" and pf = "''50''"
      and rt = sample_runtime and p = 50 and desc = "''broken''" and id' = "''job''", OF _ _ _ _ refl]
    parseProgressInfo_kinds [where kind = "''dummy''" and st = "''paused''" and pf = "''50''"
      and rt = sample_runtime and p = 50 and desc = "''idle''" and id' = "''job''", OF _ _ _ _ refl]
    parseProgressInfo_kinds [where kind = "''pmconffile''" and st = "''x''" and pf = "''50''"
      and rt = sample_runtime and p = 50 and desc = "''conf''" and id' = "''job''", OF _ _ _ _ refl]
    parseProgressInfo_kinds [where kind = "''media-change''" and st = "''x''" and pf = "''50''"
      and rt = sample_runtime and p = 50 and desc = "''cd''" and id' = "''job''", OF _ _ _ _ refl]
  by (simp add: colon_line_def sample_runtime_def sample_ParseFloat_def sample_TrimSpace_def
      RunningStatus_def FailedStatus_def)

lemma length_SplitN_eq:
  "0 < n \<Longrightarrow> length (SplitN s c n) = min n (length (filter (\<lambda>x. x = c) s) + 1)"
proof (induction n arbitrary: s)
  case 0
  then show ?case by simp
next
  case (Suc n)
  show ?case
  proof (cases "c \<in> set s \<and> n \<noteq> 0")
    case False
    show ?thesis
    proof (cases "n = 0")
      case True
      then show ?thesis by simp
    next
      case n: False
      with False have "c \<notin> set s" by simp
      then have "filter (\<lambda>x. x = c) s = []"
        by (induction s) auto
      with \<open>c \<notin> set s\<close> show ?thesis by (simp add: Index_char)
    qed
  next
    case True
    then obtain a r where s: "s = a @ c # r" "c \<notin> set a"
      by (meson split_list_first)
    with True have "SplitN s c (Suc n) = a # SplitN r c n"
      using SplitN_Suc_hit [of c a n r] by simp
    moreover have "length (filter (\<lambda>x. x = c) s) = length (filter (\<lambda>x. x = c) r) + 1"
      using s by (auto simp: filter_empty_conv)
    moreover have "length (SplitN r c n) = min n (length (filter (\<lambda>x. x = c) r) + 1)"
      using Suc.IH [of r] True by simp
    ultimately show ?thesis by simp
  qed
qed

lemma parseProgressInfo_four_not_invalid:
  assumes "length (SplitN line CHR '':'' 4) = 4"
  shows "parseProgressInfo rt id' line \<noteq>
     (JobProgressInfo_of_id rt id', Some (Errorf ''Invlaid Progress line:%q'' [line]))"
proof -
  from assms obtain kind st pf desc where "SplitN line CHR '':'' 4 = [kind, st, pf, desc]"
    by (auto simp: eval_nat_numeral length_Suc_conv)
  from parseProgressInfo_fields [OF this, of rt id'] show ?thesis
    by (simp split: option.splits)
qed

text \<open>
  C6. \<open>parseProgressInfo\<close> returns the parse error for a malformed line exactly for
  the lines that split into fewer than four colon-separated fields, that is, the lines
  with fewer than three colons. When the first three fields hold no colon, the fourth
  field is the whole remainder of the line, embedded colons included; such a line is
  accepted whenever its number parses and its kind is one of the four known kinds,
  however many colons the remainder holds, and the description of a parsed line is that
  fourth field with surrounding white space trimmed.
\<close>

theorem parseProgressInfo_field_count:
  "(length (filter (\<lambda>c. c = CHR '':'') line) < 3 \<longleftrightarrow>
      parseProgressInfo rt id' line =
        (JobProgressInfo_of_id rt id', Some (Errorf ''Invlaid Progress line:%q'' [line]))) \<and>
   (CHR '':'' \<notin> set kind \<and> CHR '':'' \<notin> set st \<and> CHR '':'' \<notin> set pf \<longrightarrow>
      SplitN (colon_line kind st pf desc) CHR '':'' 4 = [kind, st, pf, desc] \<and>
      (snd (parseProgressInfo rt id' (colon_line kind st pf desc)) = None \<longrightarrow>
         Description (fst (parseProgressInfo rt id' (colon_line kind st pf desc))) =
           TrimSpace rt desc) \<and>
      (ParseFloat rt pf \<noteq> None \<and> kind \<in> {''dummy'', ''dlstatus'', ''pmstatus'', ''pmerror''} \<longrightarrow>
         snd (parseProgressInfo rt id' (colon_line kind st pf desc)) = None \<and>
         Description (fst (parseProgressInfo rt id' (colon_line kind st pf desc))) =
           TrimSpace rt desc))"
proof -
  have few: "parseProgressInfo rt id' line =
        (JobProgressInfo_of_id rt id', Some (Errorf ''Invlaid Progress line:%q'' [line]))"
    if "length (filter (\<lambda>c. c = CHR '':'') line) < 3"
  proof -
    from that length_SplitN [of line "CHR '':''" 4]
    have "length (SplitN line CHR '':'' 4) \<noteq> 4" by simp
    then show ?thesis by (simp add: parseProgressInfo_def Let_def)
  qed
  have many: "length (filter (\<lambda>c. c = CHR '':'') line) < 3"
    if "parseProgressInfo rt id' line =
        (JobProgressInfo_of_id rt id', Some (Errorf ''Invlaid Progress line:%q'' [line]))"
  proof (rule ccontr)
    assume "\<not> length (filter (\<lambda>c. c = CHR '':'') line) < 3"
    then have "length (SplitN line CHR '':'' 4) = 4"
      using length_SplitN_eq [of 4 line "CHR '':''"] by simp
    from parseProgressInfo_four_not_invalid [OF this, of rt id'] that show False
      by simp
  qed
  have desc: "Description (fst (parseProgressInfo rt id' (colon_line kind st pf desc))) =
           TrimSpace rt desc"
    if "CHR '':'' \<notin> set kind" "CHR '':'' \<notin> set st" "CHR '':'' \<notin> set pf"
      and "snd (parseProgressInfo rt id' (colon_line kind st pf desc)) = None"
    using that parseProgressInfo_fields [OF SplitN_colon_line [OF that(1-3)], of rt id' desc]
    by (auto split: option.splits if_splits)
  have accepted: "snd (parseProgressInfo rt id' (colon_line kind st pf desc)) = None"
    if "CHR '':'' \<notin> set kind" "CHR '':'' \<notin> set st" "CHR '':'' \<notin> set pf"
      and "ParseFloat rt pf \<noteq> None"
      and "kind \<in> {''dummy'', ''dlstatus'', ''pmstatus'', ''pmerror''}"
    using that(4,5) parseProgressInfo_fields [OF SplitN_colon_line [OF that(1-3)], of rt id' desc]
    by auto
  from few many desc accepted show ?thesis
    by (auto simp: SplitN_colon_line)
qed

theorem parseProgressInfo_field_count_witness:
  "parseProgressInfo sample_runtime ''job'' ''dlstatus:x:50'' =
     (JobProgressInfo_of_id sample_runtime ''job'',
      Some (Errorf ''Invlaid Progress line:%q'' [''dlstatus:x:50''])) \<and>
   SplitN ''dlstatus:x:50: a:b '' CHR '':'' 4 = [''dlstatus'', ''x'', ''50'', '' a:b ''] \<and>
   snd (parseProgressInfo sample_runtime ''job'' ''dlstatus:x:50: a:b '') = None \<and>
   Description (fst (parseProgressInfo sample_runtime ''job'' ''dlstatus:x:50: a:b '')) =
     ''a:b''"
proof -
  have rt: "ParseFloat sample_runtime ''50'' \<noteq> None"
    "TrimSpace sample_runtime '' a:b '' = ''a:b''"
    by (simp_all add: sample_runtime_def sample_ParseFloat_def sample_TrimSpace_def)
  have line: "colon_line ''dlstatus'' ''x'' ''50'' '' a:b '' = ''dlstatus:x:50: a:b ''"
    by (simp add: colon_line_def)
  show ?thesis
    using rt
      parseProgressInfo_field_count [where line = "''dlstatus:x:50''" and rt = sample_runtime
        and id' = "''job''" and kind = "''dlstatus''" and st = "''x''" and pf = "''50''"
        and desc = "'' a:b ''"]
    by (simp add: line)
qed

text \<open>
  C10. For every progress line of four fields whose third (progress) field does not parse
  as a number, \<open>parseProgressInfo\<close> returns the error of \<open>parseProgressField\<close>
  whatever the kind field is, "pmerror" and "dummy" included: the numeric field is parsed
  before the kind is examined, and the record returned beside the error carries the job
  id only.
\<close>

theorem parseProgressInfo_bad_number:
  assumes "CHR '':'' \<notin> set kind" and "CHR '':'' \<notin> set st" and "CHR '':'' \<notin> set pf"
    and "ParseFloat rt pf = None"
  shows "parseProgressInfo rt id' (colon_line kind st pf desc) =
           (JobProgressInfo_of_id rt id', Some (Errorf ''unknown progress value: %q'' [pf]))"
  using parseProgressInfo_fields [OF SplitN_colon_line [OF assms(1-3)], of rt id' desc] assms(4)
  by simp

theorem parseProgressInfo_bad_number_witness:
  "ParseFloat sample_runtime ''abc'' = None \<and>
   parseProgressInfo sample_runtime ''job'' ''pmerror:x:abc:broken'' =
     (JobProgressInfo_of_id sample_runtime ''job'',
      Some (Errorf ''unknown progress value: %q'' [''abc''])) \<and>
   parseProgressInfo sample_runtime ''job'' ''dummy:x:abc:idle'' =
     (JobProgressInfo_of_id sample_runtime ''job'',
      Some (Errorf ''unknown progress value: %q'' [''abc'']))"
  using
    parseProgressInfo_bad_number [where kind = "''pmerror''" and st = "''x''" and pf = "''abc''"
      and rt = sample_runtime and desc = "''broken''" and id' = "''job''"]
    parseProgressInfo_bad_number [where kind = "''dummy''" and st = "''x''" and pf = "''abc''"
      and rt = sample_runtime and desc = "''idle''" and id' = "''job''"]
  by (simp add: colon_line_def sample_runtime_def sample_ParseFloat_def)

section \<open>Claims about the lock sentinel\<close>

lemma checkLock_wait_iff: "snd (checkLock seen p) \<longleftrightarrow> seen = FcntlFailed \<or> seen = Flock F_WRLCK"
  by (auto simp: checkLock_def split: probe.splits)

lemma WaitDpkgLockRelease_shape:
  "WaitDpkgLockRelease obs = Some tr \<Longrightarrow>
   \<exists>passes o1 o2.
     tr = concat passes @ [EvLockProbe dpkg_lock o1, EvLockProbe dpkg_lock_frontend o2] \<and>
     \<not> snd (checkLock o1 dpkg_lock) \<and> \<not> snd (checkLock o2 dpkg_lock_frontend) \<and>
     (\<forall>p\<in>set passes. blocked_pass p)"
proof (induction obs arbitrary: tr rule: WaitDpkgLockRelease.induct)
  case 1
  then show ?case by simp
next
  case (2 w)
  then show ?case by simp
next
  case (3 w w' ws)
  show ?case
  proof (cases "snd (checkLock (w dpkg_lock) dpkg_lock)")
    case True
    with "3.prems" obtain tr' where tr': "WaitDpkgLockRelease (w' # ws) = Some tr'"
      "tr = [EvLockProbe dpkg_lock (w dpkg_lock), EvSleep 5] @ tr'"
      by auto
    from "3.IH"(1) [OF True tr'(1)] obtain passes o1 o2 where
      IH: "tr' = concat passes @ [EvLockProbe dpkg_lock o1, EvLockProbe dpkg_lock_frontend o2]"
        "\<not> snd (checkLock o1 dpkg_lock)" "\<not> snd (checkLock o2 dpkg_lock_frontend)"
        "\<forall>p\<in>set passes. blocked_pass p"
      by blast
    let ?p = "[EvLockProbe dpkg_lock (w dpkg_lock), EvSleep 5]"
    have "tr = concat (?p # passes) @ [EvLockProbe dpkg_lock o1, EvLockProbe dpkg_lock_frontend o2]"
      using tr'(2) IH(1) by simp
    moreover have "\<forall>p\<in>set (?p # passes). blocked_pass p"
      using IH(4) True by simp
    ultimately show ?thesis using IH(2,3) by blast
  next
    case False
    show ?thesis
    proof (cases "snd (checkLock (w' dpkg_lock_frontend) dpkg_lock_frontend)")
      case True
      with False "3.prems" obtain tr' where tr': "WaitDpkgLockRelease ws = Some tr'"
        "tr = [EvLockProbe dpkg_lock (w dpkg_lock),
               EvLockProbe dpkg_lock_frontend (w' dpkg_lock_frontend), EvSleep 5] @ tr'"
        by auto
      from "3.IH"(2) [OF False True tr'(1)] obtain passes o1 o2 where
        IH: "tr' = concat passes @ [EvLockProbe dpkg_lock o1, EvLockProbe dpkg_lock_frontend o2]"
          "\<not> snd (checkLock o1 dpkg_lock)" "\<not> snd (checkLock o2 dpkg_lock_frontend)"
          "\<forall>p\<in>set passes. blocked_pass p"
        by blast
      let ?p = "[EvLockProbe dpkg_lock (w dpkg_lock),
               EvLockProbe dpkg_lock_frontend (w' dpkg_lock_frontend), EvSleep 5]"
      have "tr = concat (?p # passes) @ [EvLockProbe dpkg_lock o1, EvLockProbe dpkg_lock_frontend o2]"
        using tr'(2) IH(1) by simp
      moreover have "\<forall>p\<in>set (?p # passes). blocked_pass p"
        using IH(4) True False by simp
      ultimately show ?thesis using IH(2,3) by blast
    next
      case True': False
      with False "3.prems" have "tr = concat [] @ [EvLockProbe dpkg_lock (w dpkg_lock),
              EvLockProbe dpkg_lock_frontend (w' dpkg_lock_frontend)]"
        by simp
      with False True' show ?thesis
        by (metis empty_iff list.set(1))
    qed
  qed
qed

lemma WaitDpkgLockRelease_probes:
  "WaitDpkgLockRelease obs = Some tr \<Longrightarrow>
   list_all2 (\<lambda>w (p, seen). seen = w p) (take (length (probes tr)) obs) (probes tr)"
proof (induction obs arbitrary: tr rule: WaitDpkgLockRelease.induct)
  case 1
  then show ?case by simp
next
  case (2 w)
  then show ?case by simp
next
  case (3 w w' ws)
  show ?case
  proof (cases "snd (checkLock (w dpkg_lock) dpkg_lock)")
    case True
    with "3.prems" obtain tr' where tr': "WaitDpkgLockRelease (w' # ws) = Some tr'"
      "tr = [EvLockProbe dpkg_lock (w dpkg_lock), EvSleep 5] @ tr'"
      by auto
    from "3.IH"(1) [OF True tr'(1)] tr'(2) show ?thesis by simp
  next
    case False
    show ?thesis
    proof (cases "snd (checkLock (w' dpkg_lock_frontend) dpkg_lock_frontend)")
      case True
      with False "3.prems" obtain tr' where tr': "WaitDpkgLockRelease ws = Some tr'"
        "tr = [EvLockProbe dpkg_lock (w dpkg_lock),
               EvLockProbe dpkg_lock_frontend (w' dpkg_lock_frontend), EvSleep 5] @ tr'"
        by auto
      from "3.IH"(2) [OF False True tr'(1)] tr'(2) show ?thesis by simp
    next
      case True': False
      with False "3.prems" show ?thesis by auto
    qed
  qed
qed

lemma WaitDpkgLockRelease_free:
  "\<not> snd (checkLock (w dpkg_lock) dpkg_lock) \<Longrightarrow>
   \<not> snd (checkLock (w' dpkg_lock_frontend) dpkg_lock_frontend) \<Longrightarrow>
   WaitDpkgLockRelease (w # w' # ws) =
     Some [EvLockProbe dpkg_lock (w dpkg_lock),
           EvLockProbe dpkg_lock_frontend (w' dpkg_lock_frontend)]"
  by simp

lemma WaitDpkgLockRelease_first_locked:
  "snd (checkLock (w dpkg_lock) dpkg_lock) \<Longrightarrow>
   WaitDpkgLockRelease (w # ws) =
     map_option ((@) [EvLockProbe dpkg_lock (w dpkg_lock), EvSleep 5])
       (WaitDpkgLockRelease ws)"
  by (cases ws) simp_all

lemma WaitDpkgLockRelease_second_locked:
  "\<not> snd (checkLock (w dpkg_lock) dpkg_lock) \<Longrightarrow>
   snd (checkLock (w' dpkg_lock_frontend) dpkg_lock_frontend) \<Longrightarrow>
   WaitDpkgLockRelease (w # w' # ws) =
     map_option
       ((@) [EvLockProbe dpkg_lock (w dpkg_lock),
             EvLockProbe dpkg_lock_frontend (w' dpkg_lock_frontend), EvSleep 5])
       (WaitDpkgLockRelease ws)"
  by simp

lemma blocked_obs_cases:
  assumes "blocked_obs ps"
  obtains w where "ps = [w]" "snd (checkLock (w dpkg_lock) dpkg_lock)"
  | w w' where "ps = [w, w']" "\<not> snd (checkLock (w dpkg_lock) dpkg_lock)"
      "snd (checkLock (w' dpkg_lock_frontend) dpkg_lock_frontend)"
  using assms by (cases ps rule: blocked_obs.cases) auto

lemma WaitDpkgLockRelease_run:
  assumes "\<forall>ps\<in>set passes. blocked_obs ps"
    and "\<not> snd (checkLock (w1 dpkg_lock) dpkg_lock)"
    and "\<not> snd (checkLock (w2 dpkg_lock_frontend) dpkg_lock_frontend)"
  shows "WaitDpkgLockRelease (concat passes @ w1 # w2 # rest) =
     Some (concat (map pass_events passes) @
       [EvLockProbe dpkg_lock (w1 dpkg_lock),
        EvLockProbe dpkg_lock_frontend (w2 dpkg_lock_frontend)])"
  using assms(1)
proof (induction passes)
  case Nil
  with assms(2,3) show ?case by simp
next
  case (Cons ps passes)
  then have IH: "WaitDpkgLockRelease (concat passes @ w1 # w2 # rest) =
     Some (concat (map pass_events passes) @
       [EvLockProbe dpkg_lock (w1 dpkg_lock),
        EvLockProbe dpkg_lock_frontend (w2 dpkg_lock_frontend)])"
    and "blocked_obs ps"
    by simp_all
  from \<open>blocked_obs ps\<close> show ?case
  proof (cases rule: blocked_obs_cases)
    case (1 w)
    then show ?thesis
      using IH WaitDpkgLockRelease_first_locked [of w "concat passes @ w1 # w2 # rest"]
      by simp
  next
    case (2 w w')
    then show ?thesis
      using IH WaitDpkgLockRelease_second_locked [of w w' "concat passes @ w1 # w2 # rest"]
      by simp
  qed
qed

lemma WaitDpkgLockRelease_only:
  "WaitDpkgLockRelease obs = Some tr \<Longrightarrow>
   \<exists>passes w1 w2 rest.
     obs = concat passes @ w1 # w2 # rest \<and> (\<forall>ps\<in>set passes. blocked_obs ps) \<and>
     \<not> snd (checkLock (w1 dpkg_lock) dpkg_lock) \<and>
     \<not> snd (checkLock (w2 dpkg_lock_frontend) dpkg_lock_frontend) \<and>
     tr = concat (map pass_events passes) @
       [EvLockProbe dpkg_lock (w1 dpkg_lock),
        EvLockProbe dpkg_lock_frontend (w2 dpkg_lock_frontend)]"
proof (induction obs arbitrary: tr rule: WaitDpkgLockRelease.induct)
  case 1
  then show ?case by simp
next
  case (2 w)
  then show ?case by simp
next
  case (3 w w' ws)
  show ?case
  proof (cases "snd (checkLock (w dpkg_lock) dpkg_lock)")
    case True
    with "3.prems" obtain tr' where tr': "WaitDpkgLockRelease (w' # ws) = Some tr'"
      "tr = [EvLockProbe dpkg_lock (w dpkg_lock), EvSleep 5] @ tr'"
      by auto
    from "3.IH"(1) [OF True tr'(1)] obtain passes w1 w2 rest where
      IH: "w' # ws = concat passes @ w1 # w2 # rest" "\<forall>ps\<in>set passes. blocked_obs ps"
        "\<not> snd (checkLock (w1 dpkg_lock) dpkg_lock)"
        "\<not> snd (checkLock (w2 dpkg_lock_frontend) dpkg_lock_frontend)"
        "tr' = concat (map pass_events passes) @
           [EvLockProbe dpkg_lock (w1 dpkg_lock),
            EvLockProbe dpkg_lock_frontend (w2 dpkg_lock_frontend)]"
      by blast
    have "w # w' # ws = concat ([w] # passes) @ w1 # w2 # rest"
      using IH(1) by simp
    moreover have "\<forall>ps\<in>set ([w] # passes). blocked_obs ps"
      using IH(2) True by simp
    moreover have "tr = concat (map pass_events ([w] # passes)) @
           [EvLockProbe dpkg_lock (w1 dpkg_lock),
            EvLockProbe dpkg_lock_frontend (w2 dpkg_lock_frontend)]"
      using tr'(2) IH(5) by simp
    ultimately show ?thesis using IH(3,4) by blast
  next
    case False
    show ?thesis
    proof (cases "snd (checkLock (w' dpkg_lock_frontend) dpkg_lock_frontend)")
      case True
      with False "3.prems" obtain tr' where tr': "WaitDpkgLockRelease ws = Some tr'"
        "tr = [EvLockProbe dpkg_lock (w dpkg_lock),
               EvLockProbe dpkg_lock_frontend (w' dpkg_lock_frontend), EvSleep 5] @ tr'"
        by auto
      from "3.IH"(2) [OF False True tr'(1)] obtain passes w1 w2 rest where
        IH: "ws = concat passes @ w1 # w2 # rest" "\<forall>ps\<in>set passes. blocked_obs ps"
          "\<not> snd (checkLock (w1 dpkg_lock) dpkg_lock)"
          "\<not> snd (checkLock (w2 dpkg_lock_frontend) dpkg_lock_frontend)"
          "tr' = concat (map pass_events passes) @
             [EvLockProbe dpkg_lock (w1 dpkg_lock),
              EvLockProbe dpkg_lock_frontend (w2 dpkg_lock_frontend)]"
        by blast
      have "w # w' # ws = concat ([w, w'] # passes) @ w1 # w2 # rest"
        using IH(1) by simp
      moreover have "\<forall>ps\<in>set ([w, w'] # passes). blocked_obs ps"
        using IH(2) True False by simp
      moreover have "tr = concat (map pass_events ([w, w'] # passes)) @
             [EvLockProbe dpkg_lock (w1 dpkg_lock),
              EvLockProbe dpkg_lock_frontend (w2 dpkg_lock_frontend)]"
        using tr'(2) IH(5) by simp
      ultimately show ?thesis using IH(3,4) by blast
    next
      case free: False
      have "w # w' # ws = concat [] @ w # w' # ws" by simp
      moreover have "tr = concat (map pass_events []) @
             [EvLockProbe dpkg_lock (w dpkg_lock),
              EvLockProbe dpkg_lock_frontend (w' dpkg_lock_frontend)]"
        using False free "3.prems" by simp
      moreover have "\<forall>ps\<in>set ([] :: (string \<Rightarrow> probe) list list). blocked_obs ps"
        by simp
      ultimately show ?thesis using False free by blast
    qed
  qed
qed

text \<open>
  C2. \<open>WaitDpkgLockRelease\<close> returns exactly when the observations are a sequence of
  blocked passes followed by one pass that probes /var/lib/dpkg/lock and then
  /var/lib/dpkg/lock-frontend and finds no conflicting write lock on either, and it
  returns right after that pass. Whenever a pass finds the first file locked, or the
  first free and the second locked, the loop sleeps five seconds and starts again at the
  first file with the next observation; when it finds both free it returns. The probes
  of a returned trace are, in order, what the lock files look like at each call. A
  probe makes the caller wait exactly when the lock query fails or reports a write
  lock, so a file that cannot be opened counts as unlocked.
\<close>

theorem WaitDpkgLockRelease_returns_after_free_pass:
  "(WaitDpkgLockRelease obs = Some tr \<longleftrightarrow>
      (\<exists>passes w1 w2 rest.
         obs = concat passes @ w1 # w2 # rest \<and> (\<forall>ps\<in>set passes. blocked_obs ps) \<and>
         \<not> snd (checkLock (w1 dpkg_lock) dpkg_lock) \<and>
         \<not> snd (checkLock (w2 dpkg_lock_frontend) dpkg_lock_frontend) \<and>
         tr = concat (map pass_events passes) @
           [EvLockProbe dpkg_lock (w1 dpkg_lock),
            EvLockProbe dpkg_lock_frontend (w2 dpkg_lock_frontend)])) \<and>
   (snd (checkLock (w dpkg_lock) dpkg_lock) \<longrightarrow>
      WaitDpkgLockRelease (w # ws) =
        map_option ((@) [EvLockProbe dpkg_lock (w dpkg_lock), EvSleep 5])
          (WaitDpkgLockRelease ws)) \<and>
   (\<not> snd (checkLock (w dpkg_lock) dpkg_lock) \<and>
    snd (checkLock (w' dpkg_lock_frontend) dpkg_lock_frontend) \<longrightarrow>
      WaitDpkgLockRelease (w # w' # ws) =
        map_option
          ((@) [EvLockProbe dpkg_lock (w dpkg_lock),
                EvLockProbe dpkg_lock_frontend (w' dpkg_lock_frontend), EvSleep 5])
          (WaitDpkgLockRelease ws)) \<and>
   (\<not> snd (checkLock (w dpkg_lock) dpkg_lock) \<and>
    \<not> snd (checkLock (w' dpkg_lock_frontend) dpkg_lock_frontend) \<longrightarrow>
      WaitDpkgLockRelease (w # w' # ws) =
        Some [EvLockProbe dpkg_lock (w dpkg_lock),
              EvLockProbe dpkg_lock_frontend (w' dpkg_lock_frontend)]) \<and>
   (WaitDpkgLockRelease obs = Some tr \<longrightarrow>
      (\<exists>passes o1 o2.
         tr = concat passes @
           [EvLockProbe dpkg_lock o1, EvLockProbe dpkg_lock_frontend o2] \<and>
         o1 \<noteq> Flock F_WRLCK \<and> o2 \<noteq> Flock F_WRLCK \<and>
         (\<forall>p\<in>set passes. blocked_pass p)) \<and>
      list_all2 (\<lambda>w (p, seen). seen = w p) (take (length (probes tr)) obs) (probes tr)) \<and>
   (w dpkg_lock = Flock F_WRLCK \<longrightarrow>
      WaitDpkgLockRelease (w # ws) =
        map_option ((@) [EvLockProbe dpkg_lock (Flock F_WRLCK), EvSleep 5])
          (WaitDpkgLockRelease ws)) \<and>
   (w dpkg_lock = OpenFailed \<and> w' dpkg_lock_frontend = Flock F_WRLCK \<longrightarrow>
      WaitDpkgLockRelease (w # w' # ws) =
        map_option
          ((@) [EvLockProbe dpkg_lock OpenFailed,
                EvLockProbe dpkg_lock_frontend (Flock F_WRLCK), EvSleep 5])
          (WaitDpkgLockRelease ws)) \<and>
   (w dpkg_lock = OpenFailed \<and> w' dpkg_lock_frontend = OpenFailed \<longrightarrow>
      WaitDpkgLockRelease (w # w' # ws) =
        Some [EvLockProbe dpkg_lock OpenFailed, EvLockProbe dpkg_lock_frontend OpenFailed]) \<and>
   (snd (checkLock seen path) \<longleftrightarrow> seen = FcntlFailed \<or> seen = Flock F_WRLCK) \<and>
   checkLock OpenFailed path = ([], False) \<and>
   checkLock (Flock F_WRLCK) path = (path, True)"
proof -
  have c1: "WaitDpkgLockRelease obs = Some tr \<longleftrightarrow>
      (\<exists>passes w1 w2 rest.
         obs = concat passes @ w1 # w2 # rest \<and> (\<forall>ps\<in>set passes. blocked_obs ps) \<and>
         \<not> snd (checkLock (w1 dpkg_lock) dpkg_lock) \<and>
         \<not> snd (checkLock (w2 dpkg_lock_frontend) dpkg_lock_frontend) \<and>
         tr = concat (map pass_events passes) @
           [EvLockProbe dpkg_lock (w1 dpkg_lock),
            EvLockProbe dpkg_lock_frontend (w2 dpkg_lock_frontend)])"
    (is "?lhs \<longleftrightarrow> ?rhs")
  proof
    assume ?lhs
    then show ?rhs by (rule WaitDpkgLockRelease_only)
  next
    assume ?rhs
    then obtain passes w1 w2 rest where
      "obs = concat passes @ w1 # w2 # rest" "\<forall>ps\<in>set passes. blocked_obs ps"
      "\<not> snd (checkLock (w1 dpkg_lock) dpkg_lock)"
      "\<not> snd (checkLock (w2 dpkg_lock_frontend) dpkg_lock_frontend)"
      "tr = concat (map pass_events passes) @
           [EvLockProbe dpkg_lock (w1 dpkg_lock),
            EvLockProbe dpkg_lock_frontend (w2 dpkg_lock_frontend)]"
      by blast
    then show ?lhs
      using WaitDpkgLockRelease_run [of passes w1 w2 rest] by simp
  qed
  have c2: "snd (checkLock (w dpkg_lock) dpkg_lock) \<longrightarrow>
      WaitDpkgLockRelease (w # ws) =
        map_option ((@) [EvLockProbe dpkg_lock (w dpkg_lock), EvSleep 5])
          (WaitDpkgLockRelease ws)"
    using WaitDpkgLockRelease_first_locked [of w ws] by blast
  have c3: "\<not> snd (checkLock (w dpkg_lock) dpkg_lock) \<and>
    snd (checkLock (w' dpkg_lock_frontend) dpkg_lock_frontend) \<longrightarrow>
      WaitDpkgLockRelease (w # w' # ws) =
        map_option
          ((@) [EvLockProbe dpkg_lock (w dpkg_lock),
                EvLockProbe dpkg_lock_frontend (w' dpkg_lock_frontend), EvSleep 5])
          (WaitDpkgLockRelease ws)"
    using WaitDpkgLockRelease_second_locked [of w w' ws] by blast
  have c4: "\<not> snd (checkLock (w dpkg_lock) dpkg_lock) \<and>
    \<not> snd (checkLock (w' dpkg_lock_frontend) dpkg_lock_frontend) \<longrightarrow>
      WaitDpkgLockRelease (w # w' # ws) =
        Some [EvLockProbe dpkg_lock (w dpkg_lock),
              EvLockProbe dpkg_lock_frontend (w' dpkg_lock_frontend)]"
    using WaitDpkgLockRelease_free [of w w' ws] by blast
  have c5: "WaitDpkgLockRelease obs = Some tr \<longrightarrow>
      (\<exists>passes o1 o2.
         tr = concat passes @
           [EvLockProbe dpkg_lock o1, EvLockProbe dpkg_lock_frontend o2] \<and>
         o1 \<noteq> Flock F_WRLCK \<and> o2 \<noteq> Flock F_WRLCK \<and>
         (\<forall>p\<in>set passes. blocked_pass p)) \<and>
      list_all2 (\<lambda>w (p, seen). seen = w p) (take (length (probes tr)) obs) (probes tr)"
  proof
    assume ret: "WaitDpkgLockRelease obs = Some tr"
    from WaitDpkgLockRelease_shape [OF ret] obtain passes o1 o2 where
      "tr = concat passes @ [EvLockProbe dpkg_lock o1, EvLockProbe dpkg_lock_frontend o2]"
      "\<not> snd (checkLock o1 dpkg_lock)" "\<not> snd (checkLock o2 dpkg_lock_frontend)"
      "\<forall>p\<in>set passes. blocked_pass p"
      by blast
    then have "\<exists>passes o1 o2.
            tr = concat passes @
              [EvLockProbe dpkg_lock o1, EvLockProbe dpkg_lock_frontend o2] \<and>
            o1 \<noteq> Flock F_WRLCK \<and> o2 \<noteq> Flock F_WRLCK \<and>
            (\<forall>p\<in>set passes. blocked_pass p)"
      unfolding checkLock_wait_iff by blast
    with WaitDpkgLockRelease_probes [OF ret]
    show "(\<exists>passes o1 o2.
         tr = concat passes @
           [EvLockProbe dpkg_lock o1, EvLockProbe dpkg_lock_frontend o2] \<and>
         o1 \<noteq> Flock F_WRLCK \<and> o2 \<noteq> Flock F_WRLCK \<and>
         (\<forall>p\<in>set passes. blocked_pass p)) \<and>
      list_all2 (\<lambda>w (p, seen). seen = w p) (take (length (probes tr)) obs) (probes tr)"
      by (rule conjI [rotated])
  qed
  have c6: "snd (checkLock seen path) \<longleftrightarrow> seen = FcntlFailed \<or> seen = Flock F_WRLCK"
    by (rule checkLock_wait_iff)
  have c7: "checkLock OpenFailed path = ([], False)"
    and c8: "checkLock (Flock F_WRLCK) path = (path, True)"
    by (simp_all add: checkLock_def)
  have c9: "w dpkg_lock = Flock F_WRLCK \<longrightarrow>
      WaitDpkgLockRelease (w # ws) =
        map_option ((@) [EvLockProbe dpkg_lock (Flock F_WRLCK), EvSleep 5])
          (WaitDpkgLockRelease ws)"
    using WaitDpkgLockRelease_first_locked [of w ws] by (simp add: checkLock_def)
  have c10: "w dpkg_lock = OpenFailed \<and> w' dpkg_lock_frontend = Flock F_WRLCK \<longrightarrow>
      WaitDpkgLockRelease (w # w' # ws) =
        map_option
          ((@) [EvLockProbe dpkg_lock OpenFailed,
                EvLockProbe dpkg_lock_frontend (Flock F_WRLCK), EvSleep 5])
          (WaitDpkgLockRelease ws)"
    using WaitDpkgLockRelease_second_locked [of w w' ws] by (simp add: checkLock_def)
  have c11: "w dpkg_lock = OpenFailed \<and> w' dpkg_lock_frontend = OpenFailed \<longrightarrow>
      WaitDpkgLockRelease (w # w' # ws) =
        Some [EvLockProbe dpkg_lock OpenFailed, EvLockProbe dpkg_lock_frontend OpenFailed]"
    using WaitDpkgLockRelease_free [of w w' ws] by (simp add: checkLock_def)
  show ?thesis
    by (intro conjI c1 c2 c3 c4 c5 c9 c10 c11 c6 c7 c8)
qed

theorem WaitDpkgLockRelease_returns_after_free_pass_witness:
  "blocked_obs [sample_obs ! 0] \<and> blocked_obs [sample_obs ! 1, sample_obs ! 2] \<and>
   \<not> snd (checkLock ((sample_obs ! 3) dpkg_lock) dpkg_lock) \<and>
   \<not> snd (checkLock ((sample_obs ! 4) dpkg_lock_frontend) dpkg_lock_frontend) \<and>
   WaitDpkgLockRelease sample_obs = Some sample_lock_trace"
proof -
  have b: "blocked_obs [sample_obs ! 0]" "blocked_obs [sample_obs ! 1, sample_obs ! 2]"
    and f: "\<not> snd (checkLock ((sample_obs ! 3) dpkg_lock) dpkg_lock)"
      "\<not> snd (checkLock ((sample_obs ! 4) dpkg_lock_frontend) dpkg_lock_frontend)"
    by (simp_all add: sample_obs_def checkLock_def dpkg_lock_def dpkg_lock_frontend_def)
  have obs: "sample_obs =
      concat [[sample_obs ! 0], [sample_obs ! 1, sample_obs ! 2]] @
      sample_obs ! 3 # sample_obs ! 4 # []"
    by (simp add: sample_obs_def)
  have tr: "sample_lock_trace =
      concat (map pass_events [[sample_obs ! 0], [sample_obs ! 1, sample_obs ! 2]]) @
      [EvLockProbe dpkg_lock ((sample_obs ! 3) dpkg_lock),
       EvLockProbe dpkg_lock_frontend ((sample_obs ! 4) dpkg_lock_frontend)]"
    by (simp add: sample_obs_def sample_lock_trace_def dpkg_lock_def dpkg_lock_frontend_def)
  have "\<exists>passes w1 w2 rest.
         sample_obs = concat passes @ w1 # w2 # rest \<and> (\<forall>ps\<in>set passes. blocked_obs ps) \<and>
         \<not> snd (checkLock (w1 dpkg_lock) dpkg_lock) \<and>
         \<not> snd (checkLock (w2 dpkg_lock_frontend) dpkg_lock_frontend) \<and>
         sample_lock_trace = concat (map pass_events passes) @
           [EvLockProbe dpkg_lock (w1 dpkg_lock),
            EvLockProbe dpkg_lock_frontend (w2 dpkg_lock_frontend)]"
    using b f obs tr
    by (intro exI [of _ "[[sample_obs ! 0], [sample_obs ! 1, sample_obs ! 2]]"]
        exI [of _ "sample_obs ! 3"] exI [of _ "sample_obs ! 4"] exI [of _ "[]"]) simp
  then have "WaitDpkgLockRelease sample_obs = Some sample_lock_trace"
    by (rule WaitDpkgLockRelease_returns_after_free_pass [THEN conjunct1, THEN iffD2])
  with b f show ?thesis by simp
qed

section \<open>Claims about the Safe-Start guard\<close>

text \<open>
  C1. For every command started through \<open>safeStart\<close> whose simulation process starts:
  if the simulation exits with failure, the error is classified by \<open>parseJobError\<close>
  and \<open>IndicateFailed\<close> is called with that kind, and the real command is never
  started; if the simulation succeeds and its stdout contains "Remv dde ",
  \<open>IndicateFailed\<close> is called with kind removeDDE and cancelable true, and the real
  command is never started; the real command is started exactly when the simulation
  started, succeeded and printed no such marker.
\<close>

theorem safeStart_guard:
  assumes "Args c = arg0 # rest"
    and "sim = exec s ''apt-get'' ([''-s''] @ rest)"
  shows "(start_err sim = None \<and> wait_err sim \<noteq> None \<longrightarrow>
            safeStart s c =
              (Return None,
               [EvExec ''apt-get'' ([''-s''] @ rest),
                EvIndicate (IndicateFailed (Type (parseJobError s (stderr sim) (stdout sim)))
                  (Detail (parseJobError s (stderr sim) (stdout sim))) False)])) \<and>
         (start_err sim = None \<and> wait_err sim = None \<and> sublist ''Remv dde '' (stdout sim) \<longrightarrow>
            safeStart s c =
              (Return None,
               [EvExec ''apt-get'' ([''-s''] @ rest),
                EvIndicate (IndicateFailed ''removeDDE'' [] True)])) \<and>
         ((\<exists>c'. EvStart c' \<in> set (snd (safeStart s c))) \<longleftrightarrow>
            start_err sim = None \<and> wait_err sim = None \<and> \<not> sublist ''Remv dde '' (stdout sim)) \<and>
         (EvStart c \<in> set (snd (safeStart s c)) \<longleftrightarrow>
            start_err sim = None \<and> wait_err sim = None \<and> \<not> sublist ''Remv dde '' (stdout sim))"
  using assms
  by (auto simp: safeStart_def safeStart_wait_def Let_def Contains_iff split: option.splits)


theorem safeStart_guard_witness:
  "safeStart (sample_sys proc_ok proc_failed) (sample_Command InstallJobType [''install'', ''foo'']) =
     (Return None,
      [EvExec ''apt-get'' [''-s'', ''install'', ''foo''],
       EvIndicate (IndicateFailed ''unknown'' ''E: boom'' False)]) \<and>
   safeStart (sample_sys proc_ok proc_remv_dde) (sample_Command InstallJobType [''install'', ''foo'']) =
     (Return None,
      [EvExec ''apt-get'' [''-s'', ''install'', ''foo''],
       EvIndicate (IndicateFailed ''removeDDE'' [] True)]) \<and>
   EvStart (sample_Command InstallJobType [''install'', ''foo'']) \<in>
     set (snd (safeStart (sample_sys proc_ok proc_ok)
       (sample_Command InstallJobType [''install'', ''foo''])))"
  using
    safeStart_guard [where c = "sample_Command InstallJobType [''install'', ''foo'']"
      and ?arg0.0 = "''apt-get''" and rest = "[''install'', ''foo'']"
      and s = "sample_sys proc_ok proc_failed" and sim = proc_failed]
    safeStart_guard [where c = "sample_Command InstallJobType [''install'', ''foo'']"
      and ?arg0.0 = "''apt-get''" and rest = "[''install'', ''foo'']"
      and s = "sample_sys proc_ok proc_remv_dde" and sim = proc_remv_dde]
    safeStart_guard [where c = "sample_Command InstallJobType [''install'', ''foo'']"
      and ?arg0.0 = "''apt-get''" and rest = "[''install'', ''foo'']"
      and s = "sample_sys proc_ok proc_ok" and sim = proc_ok]
  by (simp add: sample_sys_def sample_Command_def proc_ok_def proc_failed_def proc_remv_dde_def
      safeStart_def safeStart_wait_def Let_def Contains_iff [symmetric] Contains_def)

section \<open>Claims about the facade\<close>

text \<open>
  C7. \<open>UpdateSource\<close> starts a command whose \<open>AtExitFn\<close> it has set. When the exit
  code is success and stderr contains "Some index files failed to download", that
  function marks the command failed, with kind InsufficientSpace if stderr also contains
  "No space left on device" and with kind IndexDownloadFailed otherwise, and returns
  true; in every other case it marks nothing and returns false.
\<close>

theorem UpdateSource_AtExitFn_installed:
  "snd (UpdateSource s jobId environ args) =
     [EvNewAPTCommand jobId UpdateSourceJobType (OptionToArgs args), EvSetEnv environ,
      EvStart (Command_SetEnv s
        ((newAPTCommand s jobId UpdateSourceJobType (OptionToArgs args))
           \<lparr>AtExitFn := Some UpdateSource_AtExitFn\<rparr>) environ)] \<and>
   (exitCode = ExitSuccess \<and> sublist ''Some index files failed to download'' errBytes \<and>
    sublist ''No space left on device'' errBytes \<longrightarrow>
      UpdateSource_AtExitFn exitCode errBytes =
        (True, [IndicateFailed ErrorInsufficientSpace errBytes False])) \<and>
   (exitCode = ExitSuccess \<and> sublist ''Some index files failed to download'' errBytes \<and>
    \<not> sublist ''No space left on device'' errBytes \<longrightarrow>
      UpdateSource_AtExitFn exitCode errBytes =
        (True, [IndicateFailed ErrorIndexDownloadFailed errBytes False])) \<and>
   (\<not> (exitCode = ExitSuccess \<and> sublist ''Some index files failed to download'' errBytes) \<longrightarrow>
      UpdateSource_AtExitFn exitCode errBytes = (False, []))"
  by (simp add: UpdateSource_def UpdateSource_AtExitFn_def Command_Start_traced_def Let_def
      Contains_iff)

theorem UpdateSource_AtExitFn_installed_witness:
  "UpdateSource_AtExitFn 0
     ''E: Some index files failed to download. No space left on device'' =
     (True, [IndicateFailed ''insufficientSpace''
        ''E: Some index files failed to download. No space left on device'' False]) \<and>
   UpdateSource_AtExitFn 0 ''E: Some index files failed to download.'' =
     (True, [IndicateFailed ''indexDownloadFailed''
        ''E: Some index files failed to download.'' False]) \<and>
   UpdateSource_AtExitFn 100 ''E: Some index files failed to download.'' = (False, []) \<and>
   UpdateSource_AtExitFn 0 ''W: note'' = (False, [])"
  using
    UpdateSource_AtExitFn_installed [where exitCode = 0
      and errBytes = "''E: Some index files failed to download. No space left on device''"]
    UpdateSource_AtExitFn_installed [where exitCode = 0
      and errBytes = "''E: Some index files failed to download.''"]
    UpdateSource_AtExitFn_installed [where exitCode = 100
      and errBytes = "''E: Some index files failed to download.''"]
    UpdateSource_AtExitFn_installed [where exitCode = 0 and errBytes = "''W: note''"]
  by (simp add: Contains_iff [symmetric] Contains_def ExitSuccess_def ErrorInsufficientSpace_def
      ErrorIndexDownloadFailed_def)

text \<open>
  C8. For a job id for which \<open>FindCMD\<close> finds no live command in the system's
  command set, \<open>Abort\<close> and \<open>AbortWithFailed\<close> return a NotFound error, leave the
  system as it was and do nothing else; when a live command is found the call goes to
  that command's \<open>Abort\<close>, respectively \<open>AbortWithFailed\<close>, whose error is returned.
\<close>

theorem Abort_routing:
  "(FindCMD s p jobId = None \<longrightarrow>
      Abort s p jobId = (Some (NotFoundError (''abort '' @ jobId)), p, []) \<and>
      AbortWithFailed s p jobId = (Some (NotFoundError (''abort '' @ jobId)), p, [])) \<and>
   (FindCMD s p jobId = Some c \<longrightarrow>
      Abort s p jobId =
        (fst (Command_Abort s c p), snd (Command_Abort s c p), [EvAbort c]) \<and>
      AbortWithFailed s p jobId =
        (fst (Command_AbortWithFailed s c p), snd (Command_AbortWithFailed s c p),
         [EvAbortWithFailed c]))"
proof (cases "FindCMD s p jobId")
  case None
  then show ?thesis
    by (simp add: Abort_def AbortWithFailed_def)
next
  case (Some c')
  then show ?thesis
    by (simp add: Abort_def AbortWithFailed_def split_beta)
qed

theorem Abort_routing_witness:
  "Abort (sample_sys proc_ok proc_ok) \<lparr>CmdSet = Map.empty\<rparr> ''job'' =
     (Some (NotFoundError ''abort job''), \<lparr>CmdSet = Map.empty\<rparr>, []) \<and>
   AbortWithFailed (sample_sys proc_ok proc_ok) \<lparr>CmdSet = Map.empty\<rparr> ''job'' =
     (Some (NotFoundError ''abort job''), \<lparr>CmdSet = Map.empty\<rparr>, []) \<and>
   snd (snd (Abort (sample_sys proc_ok proc_ok)
     \<lparr>CmdSet = [''job'' \<mapsto> sample_Command CleanJobType []]\<rparr> ''job'')) =
     [EvAbort (sample_Command CleanJobType [])] \<and>
   snd (snd (AbortWithFailed (sample_sys proc_ok proc_ok)
     \<lparr>CmdSet = [''job'' \<mapsto> sample_Command CleanJobType []]\<rparr> ''job'')) =
     [EvAbortWithFailed (sample_Command CleanJobType [])]"
proof -
  have sel: "FindCMD (sample_sys proc_ok proc_ok) p jobId = CmdSet p jobId"
    "Command_Abort (sample_sys proc_ok proc_ok) c p = (None, p)"
    "Command_AbortWithFailed (sample_sys proc_ok proc_ok) c p = (None, p)" for p jobId c
    by (simp_all add: sample_sys_def)
  show ?thesis
    using
      Abort_routing [where p = "\<lparr>CmdSet = Map.empty\<rparr>" and jobId = "''job''"
        and s = "sample_sys proc_ok proc_ok"]
      Abort_routing [where p = "\<lparr>CmdSet = [''job'' \<mapsto> sample_Command CleanJobType []]\<rparr>"
        and jobId = "''job''" and s = "sample_sys proc_ok proc_ok"
        and c = "sample_Command CleanJobType []"]
    by (simp add: sel)
qed

lemma CheckPkgSystemError_trace:
  "snd (CheckPkgSystemError s True) = [EvExec ''apt-get'' [''check'']]"
  "snd (CheckPkgSystemError s False) = [EvExec ''apt-get'' [''check'', ''-o'', ''Debug::NoLocking=1'']]"
  by (simp_all add: CheckPkgSystemError_def Let_def)

lemma WaitDpkgLockRelease_no_check:
  "WaitDpkgLockRelease obs = Some lt \<Longrightarrow> \<not> list_ex is_check lt"
  by (induction obs arbitrary: lt rule: WaitDpkgLockRelease.induct)
    (auto split: if_splits)

lemma safeStart_no_check: "\<not> list_ex is_check (snd (safeStart s c))"
  by (auto simp: safeStart_def safeStart_wait_def Let_def split: list.splits option.splits)

lemma DistUpgrade_gives_up_iff:
  "DistUpgrade_gives_up err \<longleftrightarrow>
     (\<exists>e. err = Some e \<and> (\<forall>d. e \<noteq> PkgSystemError ErrTypeDependenciesBroken d))"
  by (auto simp: DistUpgrade_gives_up_def split: option.splits error.splits)

lemma sample_lock_wait:
  "WaitDpkgLockRelease (lock_obs (sample_sys chk sim)) = Some sample_lock_trace"
  by (simp add: sample_sys_def sample_obs_def sample_lock_trace_def checkLock_def dpkg_lock_def
      dpkg_lock_frontend_def)

lemma sample_check:
  "fst (CheckPkgSystemError (sample_sys proc_dpkg_interrupted sim) lock) =
     Some (PkgSystemError ''dpkgInterrupted'' [])"
  "fst (CheckPkgSystemError (sample_sys proc_unmet sim) lock) =
     Some (PkgSystemError ''dependenciesBroken'' ''deps'')"
  "fst (CheckPkgSystemError (sample_sys proc_ok sim) lock) = None"
  by (simp_all add: CheckPkgSystemError_def sample_sys_def proc_dpkg_interrupted_def
      proc_unmet_def proc_ok_def Run_def captured_def Let_def parsePkgSystemError_def
      Contains_def unmet_marker_def ErrTypeDpkgInterrupted_def ErrTypeDependenciesBroken_def)

lemma sample_safeStart:
  "safeStart (sample_sys chk proc_ok) (sample_Command t args) =
     (Return None, [EvExec ''apt-get'' ([''-s''] @ args), EvStart (sample_Command t args)])"
  by (cases args)
    (simp_all add: safeStart_def safeStart_wait_def sample_sys_def sample_Command_def proc_ok_def
      Contains_def Let_def)

text \<open>
  C3, as the code has it. \<open>Install\<close>, \<open>Remove\<close> and \<open>DistUpgrade\<close> call
  \<open>WaitDpkgLockRelease\<close> and then \<open>CheckPkgSystemError\<close> with lock = true before
  they construct their command; when the check returns an error they return it and
  construct and start nothing, except that \<open>DistUpgrade\<close> goes on when the error is a
  DependenciesBroken. \<open>FixError\<close> calls \<open>WaitDpkgLockRelease\<close> and then constructs
  and starts its command, through \<open>safeStart\<close> for DependenciesBroken, without running
  the check. \<open>DownloadPackages\<close> calls \<open>CheckPkgSystemError\<close> with lock = false
  and returns its error without constructing a command; \<open>DownloadSource\<close> runs no
  check.
\<close>

theorem facade_prechecks:
  assumes "WaitDpkgLockRelease (lock_obs s) = Some lt"
  shows
    "(fst (CheckPkgSystemError s True) = Some e \<longrightarrow>
        Install s jobId packages environ args =
          (Return (Some e), lt @ [EvExec ''apt-get'' [''check'']]) \<and>
        Remove s jobId packages environ =
          (Return (Some e), lt @ [EvExec ''apt-get'' [''check'']])) \<and>
     (fst (CheckPkgSystemError s True) = Some e \<and>
      (\<forall>d. e \<noteq> PkgSystemError ErrTypeDependenciesBroken d) \<longrightarrow>
        DistUpgrade s jobId environ args =
          (Return (Some e), lt @ [EvExec ''apt-get'' [''check'']])) \<and>
     (fst (CheckPkgSystemError s True) = None \<longrightarrow>
        Install s jobId packages environ args =
          (fst (safeStart s
             (built_Command s jobId InstallJobType (packages @ OptionToArgs args) environ)),
           lt @ [EvExec ''apt-get'' [''check''],
                 EvNewAPTCommand jobId InstallJobType (packages @ OptionToArgs args),
                 EvSetEnv environ] @
           snd (safeStart s
             (built_Command s jobId InstallJobType (packages @ OptionToArgs args) environ))) \<and>
        Remove s jobId packages environ =
          (fst (safeStart s (built_Command s jobId RemoveJobType packages environ)),
           lt @ [EvExec ''apt-get'' [''check''],
                 EvNewAPTCommand jobId RemoveJobType packages, EvSetEnv environ] @
           snd (safeStart s (built_Command s jobId RemoveJobType packages environ)))) \<and>
     (fst (CheckPkgSystemError s True) = None \<or>
      (\<exists>d. fst (CheckPkgSystemError s True) = Some (PkgSystemError ErrTypeDependenciesBroken d)) \<longrightarrow>
        DistUpgrade s jobId environ args =
          (fst (safeStart s
             (built_Command s jobId DistUpgradeJobType (OptionToArgs args) environ)),
           lt @ [EvExec ''apt-get'' [''check''],
                 EvNewAPTCommand jobId DistUpgradeJobType (OptionToArgs args),
                 EvSetEnv environ] @
           snd (safeStart s
             (built_Command s jobId DistUpgradeJobType (OptionToArgs args) environ)))) \<and>
     (\<exists>r tr. FixError s jobId errType environ args =
          (r, lt @ [EvNewAPTCommand jobId FixErrorJobType ([errType] @ OptionToArgs args),
                    EvSetEnv environ] @ tr) \<and>
          (r, tr) =
            (if errType = ErrTypeDependenciesBroken
             then safeStart s
               (built_Command s jobId FixErrorJobType ([errType] @ OptionToArgs args) environ)
             else Command_Start_traced s
               (built_Command s jobId FixErrorJobType ([errType] @ OptionToArgs args) environ))) \<and>
     \<not> list_ex is_check (snd (FixError s jobId errType environ args)) \<and>
     (fst (CheckPkgSystemError s False) = Some e' \<longrightarrow>
        DownloadPackages s jobId packages environ args =
          (Return (Some e'), [EvExec ''apt-get'' [''check'', ''-o'', ''Debug::NoLocking=1'']])) \<and>
     (fst (CheckPkgSystemError s False) = None \<longrightarrow>
        DownloadPackages s jobId packages environ args =
          (Return (Command_Start s
             (built_Command s jobId DownloadJobType (packages @ OptionToArgs args) environ)),
           [EvExec ''apt-get'' [''check'', ''-o'', ''Debug::NoLocking=1''],
            EvNewAPTCommand jobId DownloadJobType (packages @ OptionToArgs args),
            EvSetEnv environ,
            EvStart
              (built_Command s jobId DownloadJobType (packages @ OptionToArgs args) environ)])) \<and>
     DownloadSource s jobId environ args =
       (Return (Command_Start s
          (built_Command s jobId PrepareDistUpgradeJobType (OptionToArgs args) environ)),
        [EvNewAPTCommand jobId PrepareDistUpgradeJobType (OptionToArgs args), EvSetEnv environ,
         EvStart
           (built_Command s jobId PrepareDistUpgradeJobType (OptionToArgs args) environ)])"
proof -
  obtain ce where ce: "CheckPkgSystemError s True = (ce, [EvExec ''apt-get'' [''check'']])"
    using CheckPkgSystemError_trace(1) [of s] by (cases "CheckPkgSystemError s True") simp
  obtain ce' where ce': "CheckPkgSystemError s False =
      (ce', [EvExec ''apt-get'' [''check'', ''-o'', ''Debug::NoLocking=1'']])"
    using CheckPkgSystemError_trace(2) [of s] by (cases "CheckPkgSystemError s False") simp
  have inst_err: "Install s jobId packages environ args =
          (Return (Some e), lt @ [EvExec ''apt-get'' [''check'']])"
    and rem_err: "Remove s jobId packages environ =
          (Return (Some e), lt @ [EvExec ''apt-get'' [''check'']])"
    if "fst (CheckPkgSystemError s True) = Some e"
    using that assms ce by (simp_all add: Install_def Remove_def)
  have dist_err: "DistUpgrade s jobId environ args =
          (Return (Some e), lt @ [EvExec ''apt-get'' [''check'']])"
    if "fst (CheckPkgSystemError s True) = Some e"
      "\<forall>d. e \<noteq> PkgSystemError ErrTypeDependenciesBroken d"
    using that assms ce by (simp add: DistUpgrade_def DistUpgrade_gives_up_iff)
  have inst_ok: "Install s jobId packages environ args =
          (fst (safeStart s
             (built_Command s jobId InstallJobType (packages @ OptionToArgs args) environ)),
           lt @ [EvExec ''apt-get'' [''check''],
                 EvNewAPTCommand jobId InstallJobType (packages @ OptionToArgs args),
                 EvSetEnv environ] @
           snd (safeStart s
             (built_Command s jobId InstallJobType (packages @ OptionToArgs args) environ)))"
    and rem_ok: "Remove s jobId packages environ =
          (fst (safeStart s (built_Command s jobId RemoveJobType packages environ)),
           lt @ [EvExec ''apt-get'' [''check''],
                 EvNewAPTCommand jobId RemoveJobType packages, EvSetEnv environ] @
           snd (safeStart s (built_Command s jobId RemoveJobType packages environ)))"
    if "fst (CheckPkgSystemError s True) = None"
    using that assms ce
    by (simp_all add: Install_def Remove_def built_Command_def Let_def split_beta)
  have dist_ok: "DistUpgrade s jobId environ args =
          (fst (safeStart s
             (built_Command s jobId DistUpgradeJobType (OptionToArgs args) environ)),
           lt @ [EvExec ''apt-get'' [''check''],
                 EvNewAPTCommand jobId DistUpgradeJobType (OptionToArgs args),
                 EvSetEnv environ] @
           snd (safeStart s
             (built_Command s jobId DistUpgradeJobType (OptionToArgs args) environ)))"
    if "fst (CheckPkgSystemError s True) = None \<or>
      (\<exists>d. fst (CheckPkgSystemError s True) = Some (PkgSystemError ErrTypeDependenciesBroken d))"
  proof -
    from that ce have "\<not> DistUpgrade_gives_up ce"
      by (auto simp: DistUpgrade_gives_up_iff)
    with assms ce show ?thesis
      by (simp add: DistUpgrade_def built_Command_def Let_def split_beta)
  qed
  have fixe: "\<exists>r tr. FixError s jobId errType environ args =
          (r, lt @ [EvNewAPTCommand jobId FixErrorJobType ([errType] @ OptionToArgs args),
                    EvSetEnv environ] @ tr) \<and>
          (r, tr) =
            (if errType = ErrTypeDependenciesBroken
             then safeStart s
               (built_Command s jobId FixErrorJobType ([errType] @ OptionToArgs args) environ)
             else Command_Start_traced s
               (built_Command s jobId FixErrorJobType ([errType] @ OptionToArgs args) environ))"
    using assms
    by (cases "errType = ErrTypeDependenciesBroken")
      (simp_all add: FixError_def built_Command_def Let_def split_beta)
  have fixe_no: "\<not> list_ex is_check (snd (FixError s jobId errType environ args))"
    using assms WaitDpkgLockRelease_no_check [OF assms] safeStart_no_check
    by (simp add: FixError_def Let_def split_beta Command_Start_traced_def)
  have dl_err: "DownloadPackages s jobId packages environ args =
          (Return (Some e'), [EvExec ''apt-get'' [''check'', ''-o'', ''Debug::NoLocking=1'']])"
    if "fst (CheckPkgSystemError s False) = Some e'"
    using that ce' by (simp add: DownloadPackages_def)
  have dl_ok: "DownloadPackages s jobId packages environ args =
          (Return (Command_Start s
             (built_Command s jobId DownloadJobType (packages @ OptionToArgs args) environ)),
           [EvExec ''apt-get'' [''check'', ''-o'', ''Debug::NoLocking=1''],
            EvNewAPTCommand jobId DownloadJobType (packages @ OptionToArgs args),
            EvSetEnv environ,
            EvStart
              (built_Command s jobId DownloadJobType (packages @ OptionToArgs args) environ)])"
    if "fst (CheckPkgSystemError s False) = None"
    using that ce'
    by (simp add: DownloadPackages_def built_Command_def Command_Start_traced_def Let_def)
  have src: "DownloadSource s jobId environ args =
       (Return (Command_Start s
          (built_Command s jobId PrepareDistUpgradeJobType (OptionToArgs args) environ)),
        [EvNewAPTCommand jobId PrepareDistUpgradeJobType (OptionToArgs args), EvSetEnv environ,
         EvStart
           (built_Command s jobId PrepareDistUpgradeJobType (OptionToArgs args) environ)])"
    by (simp add: DownloadSource_def built_Command_def Command_Start_traced_def Let_def)
  from inst_err rem_err dist_err inst_ok rem_ok dist_ok fixe fixe_no dl_err dl_ok src
  show ?thesis by blast
qed

theorem facade_prechecks_witness:
  "fst (CheckPkgSystemError (sample_sys proc_dpkg_interrupted proc_ok) True) =
     Some (PkgSystemError ''dpkgInterrupted'' []) \<and>
   Install (sample_sys proc_dpkg_interrupted proc_ok) ''job'' [''foo''] [] [] =
     (Return (Some (PkgSystemError ''dpkgInterrupted'' [])),
      sample_lock_trace @ [EvExec ''apt-get'' [''check'']]) \<and>
   DistUpgrade (sample_sys proc_dpkg_interrupted proc_ok) ''job'' [] [] =
     (Return (Some (PkgSystemError ''dpkgInterrupted'' [])),
      sample_lock_trace @ [EvExec ''apt-get'' [''check'']]) \<and>
   fst (CheckPkgSystemError (sample_sys proc_unmet proc_ok) True) =
     Some (PkgSystemError ''dependenciesBroken'' ''deps'') \<and>
   DistUpgrade (sample_sys proc_unmet proc_ok) ''job'' [] [] =
     (Return None,
      sample_lock_trace @
      [EvExec ''apt-get'' [''check''], EvNewAPTCommand ''job'' DistUpgradeJobType [], EvSetEnv [],
       EvExec ''apt-get'' [''-s''], EvStart (sample_Command DistUpgradeJobType [])]) \<and>
   DownloadPackages (sample_sys proc_unmet proc_ok) ''job'' [''foo''] [] [] =
     (Return (Some (PkgSystemError ''dependenciesBroken'' ''deps'')),
      [EvExec ''apt-get'' [''check'', ''-o'', ''Debug::NoLocking=1'']]) \<and>
   fst (CheckPkgSystemError (sample_sys proc_ok proc_ok) True) = None \<and>
   Remove (sample_sys proc_ok proc_ok) ''job'' [''foo''] [] =
     (Return None,
      sample_lock_trace @
      [EvExec ''apt-get'' [''check''], EvNewAPTCommand ''job'' RemoveJobType [''foo''], EvSetEnv [],
       EvExec ''apt-get'' [''-s'', ''foo''], EvStart (sample_Command RemoveJobType [''foo''])])"
proof -
  have built: "built_Command (sample_sys chk sim) jobId t cargs environ = sample_Command t cargs"
    for chk sim jobId t cargs environ
    by (simp add: built_Command_def sample_sys_def)
  note a = facade_prechecks [OF sample_lock_wait, where chk1 = proc_dpkg_interrupted
      and sim1 = proc_ok and e = "PkgSystemError ''dpkgInterrupted'' []" and jobId = "''job''"
      and packages = "[''foo'']" and environ = "[]" and args = "[]"]
  note b = facade_prechecks [OF sample_lock_wait, where chk1 = proc_unmet
      and sim1 = proc_ok and e' = "PkgSystemError ''dependenciesBroken'' ''deps''"
      and jobId = "''job''" and packages = "[''foo'']" and environ = "[]" and args = "[]"]
  note c = facade_prechecks [OF sample_lock_wait, where chk1 = proc_ok
      and sim1 = proc_ok and jobId = "''job''" and packages = "[''foo'']" and environ = "[]"]
  show ?thesis
    using a b c
    by (simp add: sample_check sample_safeStart built OptionToArgs_def
        ErrTypeDependenciesBroken_def)
qed

text \<open>
  C3 as stated fails for \<open>FixError\<close>: with a package system whose check reports an
  interrupted dpkg, \<open>FixError\<close> runs no check and starts its command.
\<close>

theorem FixError_without_check_counterexample:
  "fst (CheckPkgSystemError (sample_sys proc_dpkg_interrupted proc_ok) True) =
     Some (PkgSystemError ''dpkgInterrupted'' []) \<and>
   FixError (sample_sys proc_dpkg_interrupted proc_ok) ''job'' ''dpkgInterrupted'' [] [] =
     (Return None,
      sample_lock_trace @
      [EvNewAPTCommand ''job'' FixErrorJobType [''dpkgInterrupted''], EvSetEnv [],
       EvStart (sample_Command FixErrorJobType [''dpkgInterrupted''])]) \<and>
   \<not> list_ex is_check
     (snd (FixError (sample_sys proc_dpkg_interrupted proc_ok) ''job'' ''dpkgInterrupted'' [] []))"
proof -
  have "FixError (sample_sys proc_dpkg_interrupted proc_ok) ''job'' ''dpkgInterrupted'' [] [] =
     (Return None,
      sample_lock_trace @
      [EvNewAPTCommand ''job'' FixErrorJobType [''dpkgInterrupted''], EvSetEnv [],
       EvStart (sample_Command FixErrorJobType [''dpkgInterrupted''])])"
    by (simp add: FixError_def sample_lock_wait ErrTypeDependenciesBroken_def OptionToArgs_def
        Command_Start_traced_def Let_def)
      (simp add: sample_sys_def)
  moreover have "\<not> list_ex is_check sample_lock_trace"
    by (simp add: sample_lock_trace_def)
  ultimately show ?thesis
    by (simp add: sample_check)
qed

section \<open>Claims about the retry hook\<close>



end
